theory Spec2Isabelle
  imports Main "HOL-Library.Sublist"
begin

section \<open>Data model of build/optimize.js\<close>

text \<open>
  The build script walks the source tree, optimizes images, stylesheets and scripts,
  copies HTML, and reports a summary. Its own code is control flow around external
  tools (the \<open>path\<close> and \<open>fs\<close> modules of the platform, glob, sharp, imagemin, terser,
  postcss). The script is embedded function by function; every external tool is a field
  of the record \<open>env\<close>, a function from the arguments of the call to either the error it
  throws (\<open>Inl\<close>) or the value it resolves to (\<open>Inr\<close>); within a run, a call has the
  outcome its arguments determine.

  Strings and buffers are byte lists, so \<open>Buffer.byteLength\<close> and \<open>.length\<close> are
  \<open>length\<close>. Timestamps, durations, the \<open>savings\<close> percentage (wall-clock time and
  floating point) and stack traces are left out of the log entries; every other field is
  kept.
\<close>

type_synonym path = string
type_synonym buffer = string

text \<open>\<open>Error\<close> and the script's \<open>class OptimizationError extends Error\<close>.\<close>

datatype error =
    Error (message: string)
  | OptimizationError (message: string) (cause: error) (err_context: "(string \<times> string) list")

text \<open>The values that appear as metadata of a log line.\<close>

datatype jsval =
    Str string
  | Num nat
  | Bool bool
  | Arr "jsval list"
  | Obj "(string \<times> jsval) list"

datatype level = INFO | WARN | ERROR

text \<open>
  What a run does to the outside world, in order: a log line (\<open>logger.info\<close>,
  \<open>logger.warn\<close>, \<open>logger.error\<close>), a created directory, a written file, a copied file.
\<close>

datatype event =
    Logged level string "(string \<times> jsval) list"
  | MadeDir path
  | Wrote path buffer
  | Copied path path

text \<open>An asynchronous computation: the events it caused, and its error or its value.\<close>

type_synonym 'a io = "event list \<times> (error + 'a)"

definition return :: "'a \<Rightarrow> 'a io" where
  "return x = ([], Inr x)"

definition throw :: "error \<Rightarrow> 'a io" where
  "throw e = ([], Inl e)"

definition call :: "error + 'a \<Rightarrow> 'a io" where
  "call r = ([], r)"

definition await :: "'a io \<Rightarrow> ('a \<Rightarrow> 'b io) \<Rightarrow> 'b io" where
  "await m k =
     (case m of
        (t, Inl e) \<Rightarrow> (t, Inl e)
      | (t, Inr x) \<Rightarrow> (case k x of (t', r) \<Rightarrow> (t @ t', r)))"

definition try_catch :: "'a io \<Rightarrow> (error \<Rightarrow> 'a io) \<Rightarrow> 'a io" where
  "try_catch m h =
     (case m of
        (t, Inl e) \<Rightarrow> (case h e of (t', r) \<Rightarrow> (t @ t', r))
      | (t, Inr x) \<Rightarrow> (t, Inr x))"

subsection \<open>Records of the run\<close>

text \<open>
  The CSS, JS and copy passes return \<open>{ path, size }\<close>; the image pass returns
  \<open>{ path, format, size }\<close>. An entry of \<open>results.errors\<close> is \<open>{ type, path, error }\<close>.
\<close>

record asset =
  apath :: path
  asize :: nat

record image_asset = asset +
  format :: string

record error_record =
  err_type :: string
  err_path :: path
  err_error :: string

record results =
  images :: "image_asset list"
  css :: "asset list"
  js :: "asset list"
  html :: "asset list"
  other :: "asset list"
  errors :: "error_record list"

subsection \<open>Options handed to the external tools\<close>

record resize_options =
  withoutEnlargement :: bool
  fit :: string

datatype encoder =
    Webp nat
  | Jpeg nat bool
  | Png nat

text \<open>
  The imagemin plugins as the script configures them. The pngquant quality range
  \<open>[0.8, 0.9]\<close> is written in hundredths.
\<close>

datatype imagemin_plugin =
    Svgo "(string \<times> bool) list"
  | Mozjpeg nat
  | Pngquant "nat \<times> nat" nat

record compress_options =
  dead_code :: bool
  drop_console :: bool
  drop_debugger :: bool
  keep_classnames :: bool
  keep_fnames :: bool
  passes :: nat

record mangle_options =
  toplevel :: bool
  safari10 :: bool

record format_options =
  comments :: bool
  ecma :: nat

record sourceMap_options =
  filename :: string
  url :: string

record terser_options =
  compress :: compress_options
  mangle :: mangle_options
  format_opts :: format_options
  sourceMap :: sourceMap_options

text \<open>
  The result of terser: \<open>code\<close> may be missing or empty; \<open>code_map\<close> is \<open>result.map\<close>
  when it is present (truthy), as the text \<open>JSON.stringify\<close> gives for it.
\<close>

record minify_result =
  code :: "string option"
  code_map :: "string option"

record cssnano_options =
  discardComments_removeAll :: bool
  normalizeWhitespace :: bool
  minifyFontValues :: bool
  minifySelectors :: bool

datatype postcss_plugin =
    Autoprefixer "string list"
  | Cssnano string cssnano_options

record postcss_result =
  css_text :: string
  css_map :: "string option"

text \<open>
  What \<open>image.metadata()\<close> resolves to; the script reads the width, which sharp reports
  for every image it decodes.
\<close>

record metadata =
  width :: nat

subsection \<open>The environment\<close>

text \<open>
  \<open>SOURCE_DIR\<close> and \<open>BUILD_DIR\<close> are the two directories of \<open>CONFIG\<close>, computed by the
  script from its own location. \<open>path_basename p (Some ext)\<close> is \<open>path.basename(p, ext)\<close>
  and \<open>path_basename p None\<close> is \<open>path.basename(p)\<close>. \<open>sharp_toBuffer p w opts enc\<close> is the
  pipeline \<open>sharp(p).resize(w, null, opts).<enc>(...).toBuffer()\<close>.
\<close>

record env =
  SOURCE_DIR :: path
  BUILD_DIR :: path
  path_extname :: "path \<Rightarrow> string"
  path_basename :: "path \<Rightarrow> string option \<Rightarrow> string"
  path_dirname :: "path \<Rightarrow> path"
  path_join :: "path \<Rightarrow> path \<Rightarrow> path"
  path_relative :: "path \<Rightarrow> path \<Rightarrow> path"
  fs_access :: "path \<Rightarrow> error + unit"
  fs_mkdir :: "path \<Rightarrow> error + unit"
  fs_readFile :: "path \<Rightarrow> error + buffer"
  fs_writeFile :: "path \<Rightarrow> buffer \<Rightarrow> error + unit"
  fs_copyFile :: "path \<Rightarrow> path \<Rightarrow> error + unit"
  fs_stat :: "path \<Rightarrow> error + nat"
  glob :: "string list \<Rightarrow> string list \<Rightarrow> error + path list"
  sharp_metadata :: "path \<Rightarrow> error + metadata"
  sharp_toBuffer :: "path \<Rightarrow> nat \<Rightarrow> resize_options \<Rightarrow> encoder \<Rightarrow> error + buffer"
  imagemin_buffer :: "buffer \<Rightarrow> imagemin_plugin \<Rightarrow> error + buffer"
  terserMinify :: "string \<Rightarrow> terser_options \<Rightarrow> error + minify_result"
  postcss_process ::
    "postcss_plugin list \<Rightarrow> string \<Rightarrow> path \<Rightarrow> path \<Rightarrow> error + postcss_result"

section \<open>Configuration\<close>

definition IMAGE_QUALITY_webp :: nat where
  "IMAGE_QUALITY_webp = 80"

definition IMAGE_QUALITY_jpeg :: nat where
  "IMAGE_QUALITY_jpeg = 85"

definition IMAGE_QUALITY_png :: nat where
  "IMAGE_QUALITY_png = 90"

definition MAX_IMAGE_WIDTH :: nat where
  "MAX_IMAGE_WIDTH = 1920"

text \<open>The set literal, in insertion order (the order \<open>Array.from\<close> gives).\<close>

definition SUPPORTED_IMAGE_FORMATS :: "string list" where
  "SUPPORTED_IMAGE_FORMATS = [''.jpg'', ''.jpeg'', ''.png'', ''.svg'', ''.webp'']"

definition RESIZE_OPTIONS :: resize_options where
  "RESIZE_OPTIONS = \<lparr>withoutEnlargement = True, fit = ''inside''\<rparr>"

definition SVGO_PLUGINS :: "(string \<times> bool) list" where
  "SVGO_PLUGINS =
     [(''removeViewBox'', False), (''cleanupIDs'', True), (''removeUnusedNS'', True)]"

definition TERSER_OPTIONS :: "string \<Rightarrow> terser_options" where
  "TERSER_OPTIONS outputName =
     \<lparr>compress =
        \<lparr>dead_code = True, drop_console = False, drop_debugger = True,
         keep_classnames = False, keep_fnames = False, passes = 2\<rparr>,
      mangle = \<lparr>toplevel = True, safari10 = True\<rparr>,
      format_opts = \<lparr>comments = False, ecma = 2020\<rparr>,
      sourceMap = \<lparr>filename = outputName, url = outputName @ ''.map''\<rparr>\<rparr>"

definition POSTCSS_PLUGINS :: "postcss_plugin list" where
  "POSTCSS_PLUGINS =
     [Autoprefixer [''> 1%'', ''last 2 versions'', ''not dead''],
      Cssnano ''default''
        \<lparr>discardComments_removeAll = True, normalizeWhitespace = True,
         minifyFontValues = True, minifySelectors = True\<rparr>]"

section \<open>Logger and small helpers\<close>

definition logger_info :: "string \<Rightarrow> (string \<times> jsval) list \<Rightarrow> unit io" where
  "logger_info msg meta = ([Logged INFO msg meta], Inr ())"

definition logger_warn :: "string \<Rightarrow> (string \<times> jsval) list \<Rightarrow> unit io" where
  "logger_warn msg meta = ([Logged WARN msg meta], Inr ())"

definition logger_error :: "string \<Rightarrow> error \<Rightarrow> (string \<times> jsval) list \<Rightarrow> unit io" where
  "logger_error msg err meta = ([Logged ERROR msg ((''error'', Str (message err)) # meta)], Inr ())"

text \<open>\<open>String.prototype.toLowerCase\<close> on the ASCII letters.\<close>

definition lower_char :: "char \<Rightarrow> char" where
  "lower_char c =
     (case map_of (zip ''ABCDEFGHIJKLMNOPQRSTUVWXYZ'' ''abcdefghijklmnopqrstuvwxyz'') c of
        Some l \<Rightarrow> l
      | None \<Rightarrow> c)"

definition toLowerCase :: "string \<Rightarrow> string" where
  "toLowerCase s = map lower_char s"

text \<open>\<open>Array.prototype.join\<close>.\<close>

fun join_strings :: "string \<Rightarrow> string list \<Rightarrow> string" where
  "join_strings sep [] = []"
| "join_strings sep [x] = x"
| "join_strings sep (x # y # ys) = x @ sep @ join_strings sep (y # ys)"

text \<open>\<open>fs.writeFile\<close> and \<open>fs.copyFile\<close>, with the event they cause when they succeed.\<close>

definition writeFile :: "env \<Rightarrow> path \<Rightarrow> buffer \<Rightarrow> unit io" where
  "writeFile env p b =
     (case fs_writeFile env p b of
        Inl e \<Rightarrow> ([], Inl e)
      | Inr _ \<Rightarrow> ([Wrote p b], Inr ()))"

definition fs_copy :: "env \<Rightarrow> path \<Rightarrow> path \<Rightarrow> unit io" where
  "fs_copy env src dst =
     (case fs_copyFile env src dst of
        Inl e \<Rightarrow> ([], Inl e)
      | Inr _ \<Rightarrow> ([Copied src dst], Inr ()))"

definition ensureDirectory :: "env \<Rightarrow> path \<Rightarrow> unit io" where
  "ensureDirectory env dirPath =
     (case fs_access env dirPath of
        Inr _ \<Rightarrow> ([], Inr ())
      | Inl _ \<Rightarrow>
          (case fs_mkdir env dirPath of
             Inl e \<Rightarrow> ([], Inl e)
           | Inr _ \<Rightarrow>
               ([MadeDir dirPath, Logged INFO ''Created directory'' [(''path'', Str dirPath)]],
                Inr ())))"

section \<open>The transformers\<close>

subsection \<open>optimizeImage\<close>

text \<open>The body of \<open>if (ext === '.svg') { ... return optimizedFiles; }\<close>.\<close>

definition optimizeImage_svg ::
  "env \<Rightarrow> path \<Rightarrow> path \<Rightarrow> string \<Rightarrow> path \<Rightarrow> image_asset list io" where
  "optimizeImage_svg env inputPath outputDir basename relativePath =
     await (call (fs_readFile env inputPath)) (\<lambda>svgBuffer.
     await (call (imagemin_buffer env svgBuffer (Svgo SVGO_PLUGINS))) (\<lambda>optimized.
     let outputPath = path_join env outputDir (basename @ ''.svg'') in
     await (writeFile env outputPath optimized) (\<lambda>_.
     let originalSize = length svgBuffer;
         optimizedSize = length optimized;
         optimizedFiles = [\<lparr>apath = outputPath, asize = optimizedSize, format = ''svg''\<rparr>] in
     await (logger_info ''Optimized SVG''
              [(''input'', Str relativePath),
               (''output'', Str (path_basename env outputPath None)),
               (''originalSize'', Num originalSize),
               (''optimizedSize'', Num optimizedSize)]) (\<lambda>_.
     return optimizedFiles))))"

text \<open>
  The second rendition: a progressive JPEG through mozjpeg for \<open>.jpg\<close> and \<open>.jpeg\<close>,
  a PNG through pngquant for \<open>.png\<close>, nothing otherwise. The result is
  \<open>optimizedFiles\<close> after the \<open>push\<close>.
\<close>

definition optimizeImage_second ::
  "env \<Rightarrow> path \<Rightarrow> path \<Rightarrow> string \<Rightarrow> string \<Rightarrow> nat \<Rightarrow> image_asset list
     \<Rightarrow> image_asset list io" where
  "optimizeImage_second env inputPath outputDir ext basename targetWidth optimizedFiles =
     (if ext = ''.jpg'' \<or> ext = ''.jpeg'' then
        await (call (sharp_toBuffer env inputPath targetWidth RESIZE_OPTIONS
                       (Jpeg IMAGE_QUALITY_jpeg True))) (\<lambda>jpegBuffer.
        await (call (imagemin_buffer env jpegBuffer (Mozjpeg IMAGE_QUALITY_jpeg))) (\<lambda>optimized.
        let jpegPath = path_join env outputDir (basename @ ''.jpg'') in
        await (writeFile env jpegPath optimized) (\<lambda>_.
        return (optimizedFiles @
                  [\<lparr>apath = jpegPath, asize = length optimized, format = ''jpeg''\<rparr>]))))
      else if ext = ''.png'' then
        await (call (sharp_toBuffer env inputPath targetWidth RESIZE_OPTIONS (Png 9))) (\<lambda>pngBuffer.
        await (call (imagemin_buffer env pngBuffer (Pngquant (80, 90) 1))) (\<lambda>optimized.
        let pngPath = path_join env outputDir (basename @ ''.png'') in
        await (writeFile env pngPath optimized) (\<lambda>_.
        return (optimizedFiles @
                  [\<lparr>apath = pngPath, asize = length optimized, format = ''png''\<rparr>]))))
      else return optimizedFiles)"

text \<open>The raster path, from \<open>const image = sharp(inputPath)\<close> to \<open>return optimizedFiles\<close>.\<close>

definition optimizeImage_raster ::
  "env \<Rightarrow> path \<Rightarrow> path \<Rightarrow> string \<Rightarrow> string \<Rightarrow> path \<Rightarrow> image_asset list io" where
  "optimizeImage_raster env inputPath outputDir ext basename relativePath =
     await (call (sharp_metadata env inputPath)) (\<lambda>metadata.
     let targetWidth = min (width metadata) MAX_IMAGE_WIDTH in
     await (call (sharp_toBuffer env inputPath targetWidth RESIZE_OPTIONS
                    (Webp IMAGE_QUALITY_webp))) (\<lambda>webpBuffer.
     let webpPath = path_join env outputDir (basename @ ''.webp'') in
     await (writeFile env webpPath webpBuffer) (\<lambda>_.
     await (optimizeImage_second env inputPath outputDir ext basename targetWidth
              [\<lparr>apath = webpPath, asize = length webpBuffer, format = ''webp''\<rparr>])
       (\<lambda>optimizedFiles.
     let totalSize = sum_list (map asize optimizedFiles) in
     await (logger_info ''Optimized image''
              [(''input'', Str relativePath),
               (''formats'', Str (join_strings '', '' (map format optimizedFiles))),
               (''totalSize'', Num totalSize)]) (\<lambda>_.
     return optimizedFiles)))))"

definition optimizeImage :: "env \<Rightarrow> path \<Rightarrow> path \<Rightarrow> image_asset list io" where
  "optimizeImage env inputPath outputDir =
     (let ext = toLowerCase (path_extname env inputPath);
          basename = path_basename env inputPath (Some ext);
          relativePath = path_relative env (SOURCE_DIR env) inputPath
      in if ext \<notin> set SUPPORTED_IMAGE_FORMATS then
           await (logger_warn ''Unsupported image format''
                    [(''path'', Str inputPath), (''ext'', Str ext)]) (\<lambda>_.
           return [])
         else
           try_catch
             (await (ensureDirectory env outputDir) (\<lambda>_.
                if ext = ''.svg''
                then optimizeImage_svg env inputPath outputDir basename relativePath
                else optimizeImage_raster env inputPath outputDir ext basename relativePath))
             (\<lambda>error.
                throw (OptimizationError (''Failed to optimize image: '' @ relativePath) error
                         [(''inputPath'', inputPath), (''outputDir'', outputDir)])))"

subsection \<open>optimizeCSS\<close>

definition optimizeCSS :: "env \<Rightarrow> path \<Rightarrow> path \<Rightarrow> asset io" where
  "optimizeCSS env inputPath outputPath =
     (let relativePath = path_relative env (SOURCE_DIR env) inputPath in
      try_catch
        (await (call (fs_readFile env inputPath)) (\<lambda>css.
         let originalSize = length css in
         await (call (postcss_process env POSTCSS_PLUGINS css inputPath outputPath)) (\<lambda>result.
         let optimizedSize = length (css_text result) in
         await (ensureDirectory env (path_dirname env outputPath)) (\<lambda>_.
         await (writeFile env outputPath (css_text result)) (\<lambda>_.
         await (case css_map result of
                  Some m \<Rightarrow> writeFile env (outputPath @ ''.map'') m
                | None \<Rightarrow> return ()) (\<lambda>_.
         await (logger_info ''Optimized CSS''
                  [(''input'', Str relativePath),
                   (''output'', Str (path_basename env outputPath None)),
                   (''originalSize'', Num originalSize),
                   (''optimizedSize'', Num optimizedSize)]) (\<lambda>_.
         return \<lparr>apath = outputPath, asize = optimizedSize\<rparr>)))))))
        (\<lambda>error.
           throw (OptimizationError (''Failed to optimize CSS: '' @ relativePath) error
                    [(''inputPath'', inputPath), (''outputPath'', outputPath)])))"

subsection \<open>optimizeJS\<close>

text \<open>
  \<open>!result.code\<close> holds when the code is missing and when it is the empty string.
\<close>

definition no_code :: "minify_result \<Rightarrow> bool" where
  "no_code result = (case code result of None \<Rightarrow> True | Some c \<Rightarrow> c = [])"

definition optimizeJS :: "env \<Rightarrow> path \<Rightarrow> path \<Rightarrow> asset io" where
  "optimizeJS env inputPath outputPath =
     (let relativePath = path_relative env (SOURCE_DIR env) inputPath in
      try_catch
        (await (call (fs_readFile env inputPath)) (\<lambda>source.
         let originalSize = length source in
         await (call (terserMinify env source
                        (TERSER_OPTIONS (path_basename env outputPath None)))) (\<lambda>result.
         if no_code result then throw (Error ''Minification produced no output'')
         else
         let minified = the (code result);
             optimizedSize = length minified in
         await (ensureDirectory env (path_dirname env outputPath)) (\<lambda>_.
         await (writeFile env outputPath minified) (\<lambda>_.
         await (case code_map result of
                  Some m \<Rightarrow> writeFile env (outputPath @ ''.map'') m
                | None \<Rightarrow> return ()) (\<lambda>_.
         await (logger_info ''Optimized JavaScript''
                  [(''input'', Str relativePath),
                   (''output'', Str (path_basename env outputPath None)),
                   (''originalSize'', Num originalSize),
                   (''optimizedSize'', Num optimizedSize)]) (\<lambda>_.
         return \<lparr>apath = outputPath, asize = optimizedSize\<rparr>)))))))
        (\<lambda>error.
           throw (OptimizationError (''Failed to optimize JavaScript: '' @ relativePath) error
                    [(''inputPath'', inputPath), (''outputPath'', outputPath)])))"

subsection \<open>copyFile\<close>

definition copyFile :: "env \<Rightarrow> path \<Rightarrow> path \<Rightarrow> asset io" where
  "copyFile env source destination =
     try_catch
       (await (ensureDirectory env (path_dirname env destination)) (\<lambda>_.
        await (fs_copy env source destination) (\<lambda>_.
        await (call (fs_stat env destination)) (\<lambda>stats.
        await (logger_info ''Copied file''
                 [(''source'', Str (path_relative env (SOURCE_DIR env) source)),
                  (''destination'', Str (path_relative env (BUILD_DIR env) destination)),
                  (''size'', Num stats)]) (\<lambda>_.
        return \<lparr>apath = destination, asize = stats\<rparr>)))))
       (\<lambda>error.
          throw (OptimizationError (''Failed to copy file: '' @ source) error
                   [(''source'', source), (''destination'', destination)]))"

section \<open>processAssets and main\<close>

definition IGNORE :: "string list" where
  "IGNORE = [''node_modules/**'', ''dist/**'', ''build/**'', ''.git/**'']"

definition IGNORE_JS :: "string list" where
  "IGNORE_JS = [''node_modules/**'', ''dist/**'', ''build/**'', ''.git/**'', ''scripts/**'']"

definition imagePatterns :: "string list" where
  "imagePatterns = map (\<lambda>ext. ''**/*'' @ ext) SUPPORTED_IMAGE_FORMATS"

definition empty_results :: results where
  "empty_results = \<lparr>images = [], css = [], js = [], html = [], other = [], errors = []\<rparr>"

text \<open>
  A \<open>for (const x of xs) { ... }\<close> whose body cannot throw: the body takes the
  \<open>results\<close> object and an element and gives the events and the updated object.
\<close>

fun for_each :: "('s \<Rightarrow> 'a \<Rightarrow> event list \<times> 's) \<Rightarrow> 'a list \<Rightarrow> 's \<Rightarrow> event list \<times> 's" where
  "for_each body [] s = ([], s)"
| "for_each body (x # xs) s =
     (case body s x of
        (t, s') \<Rightarrow> (case for_each body xs s' of (t', s2) \<Rightarrow> (t @ t', s2)))"

text \<open>The four loop bodies: a \<open>try\<close> around one transformer, a \<open>catch\<close> that records.\<close>

definition image_outputDir :: "env \<Rightarrow> path \<Rightarrow> path" where
  "image_outputDir env imagePath =
     (let relativePath = path_relative env (SOURCE_DIR env) imagePath
      in path_join env (BUILD_DIR env) (path_dirname env relativePath))"

definition outputPath_of :: "env \<Rightarrow> path \<Rightarrow> path" where
  "outputPath_of env sourcePath =
     (let relativePath = path_relative env (SOURCE_DIR env) sourcePath
      in path_join env (BUILD_DIR env) relativePath)"

definition image_step :: "env \<Rightarrow> results \<Rightarrow> path \<Rightarrow> event list \<times> results" where
  "image_step env results imagePath =
     (case optimizeImage env imagePath (image_outputDir env imagePath) of
        (t, Inr optimized) \<Rightarrow> (t, results\<lparr>images := images results @ optimized\<rparr>)
      | (t, Inl error) \<Rightarrow>
          (t @ fst (logger_error ''Image optimization failed'' error [(''path'', Str imagePath)]),
           results\<lparr>errors := errors results @
             [\<lparr>err_type = ''image'', err_path = imagePath, err_error = message error\<rparr>]\<rparr>))"

definition css_step :: "env \<Rightarrow> results \<Rightarrow> path \<Rightarrow> event list \<times> results" where
  "css_step env results cssPath =
     (case optimizeCSS env cssPath (outputPath_of env cssPath) of
        (t, Inr optimized) \<Rightarrow> (t, results\<lparr>css := css results @ [optimized]\<rparr>)
      | (t, Inl error) \<Rightarrow>
          (t @ fst (logger_error ''CSS optimization failed'' error [(''path'', Str cssPath)]),
           results\<lparr>errors := errors results @
             [\<lparr>err_type = ''css'', err_path = cssPath, err_error = message error\<rparr>]\<rparr>))"

definition js_step :: "env \<Rightarrow> results \<Rightarrow> path \<Rightarrow> event list \<times> results" where
  "js_step env results jsPath =
     (case optimizeJS env jsPath (outputPath_of env jsPath) of
        (t, Inr optimized) \<Rightarrow> (t, results\<lparr>js := js results @ [optimized]\<rparr>)
      | (t, Inl error) \<Rightarrow>
          (t @ fst (logger_error ''JavaScript optimization failed'' error [(''path'', Str jsPath)]),
           results\<lparr>errors := errors results @
             [\<lparr>err_type = ''js'', err_path = jsPath, err_error = message error\<rparr>]\<rparr>))"

definition html_step :: "env \<Rightarrow> results \<Rightarrow> path \<Rightarrow> event list \<times> results" where
  "html_step env results htmlPath =
     (case copyFile env htmlPath (outputPath_of env htmlPath) of
        (t, Inr copied) \<Rightarrow> (t, results\<lparr>html := html results @ [copied]\<rparr>)
      | (t, Inl error) \<Rightarrow>
          (t @ fst (logger_error ''HTML copy failed'' error [(''path'', Str htmlPath)]),
           results\<lparr>errors := errors results @
             [\<lparr>err_type = ''html'', err_path = htmlPath, err_error = message error\<rparr>]\<rparr>))"

text \<open>
  A stretch of the body of \<open>processAssets\<close>: from the \<open>results\<close> object to the events,
  the object afterwards, and the error if the stretch threw. A throw skips what follows.
\<close>

type_synonym phase = "results \<Rightarrow> event list \<times> results \<times> error option"

definition and_then :: "phase \<Rightarrow> phase \<Rightarrow> phase" where
  "and_then p q results =
     (case p results of
        (t, results', Some e) \<Rightarrow> (t, results', Some e)
      | (t, results', None) \<Rightarrow>
          (case q results' of (t', results2, r) \<Rightarrow> (t @ t', results2, r)))"

definition prepare :: "env \<Rightarrow> phase" where
  "prepare env results =
     (let started = Logged INFO ''Starting asset optimization''
                      [(''buildDir'', Str (BUILD_DIR env)), (''sourceDir'', Str (SOURCE_DIR env))]
      in case ensureDirectory env (BUILD_DIR env) of
           (t, Inl e) \<Rightarrow> (started # t, results, Some e)
         | (t, Inr _) \<Rightarrow> (started # t, results, None))"

text \<open>
  One kind: \<open>await glob(...)\<close>, the log line with the count, and the loop over the files.
\<close>

definition discover ::
  "env \<Rightarrow> string list \<Rightarrow> string list \<Rightarrow> string \<Rightarrow> (results \<Rightarrow> path \<Rightarrow> event list \<times> results)
     \<Rightarrow> phase" where
  "discover env patterns ignore found body results =
     (case glob env patterns ignore of
        Inl e \<Rightarrow> ([], results, Some e)
      | Inr files \<Rightarrow>
          (case for_each body files results of
             (t, results') \<Rightarrow>
               (Logged INFO found [(''count'', Num (length files))] # t, results', None)))"

definition kind_summary :: "('a asset_scheme) list \<Rightarrow> jsval" where
  "kind_summary files =
     Obj [(''count'', Num (length files)), (''totalSize'', Num (sum_list (map asize files)))]"

definition summary :: "results \<Rightarrow> (string \<times> jsval) list" where
  "summary results =
     [(''images'', kind_summary (images results)),
      (''css'', kind_summary (css results)),
      (''js'', kind_summary (js results)),
      (''html'', kind_summary (html results)),
      (''errors'', Num (length (errors results)))]"

definition error_json :: "error_record \<Rightarrow> jsval" where
  "error_json r =
     Obj [(''type'', Str (err_type r)), (''path'', Str (err_path r)), (''error'', Str (err_error r))]"

definition report :: phase where
  "report results =
     (Logged INFO ''Asset optimization completed'' (summary results) #
      (if length (errors results) > 0
       then [Logged WARN ''Some assets failed to optimize''
               [(''errorCount'', Num (length (errors results))),
                (''errors'', Arr (map error_json (errors results)))]]
       else []),
      results, None)"

text \<open>
  \<open>processAssets\<close> gives the events, the \<open>results\<close> object as it is when the function
  returns or throws, and the error it throws; \<open>None\<close> means that it returned the object.
\<close>

definition processAssets :: "env \<Rightarrow> event list \<times> results \<times> error option" where
  "processAssets env =
     (case
        and_then (prepare env)
       (and_then (discover env imagePatterns IGNORE ''Found images to optimize'' (image_step env))
       (and_then (discover env [''**/*.css''] IGNORE ''Found CSS files to optimize'' (css_step env))
       (and_then (discover env [''**/*.js''] IGNORE_JS ''Found JavaScript files to optimize''
                    (js_step env))
       (and_then (discover env [''**/*.html''] IGNORE ''Found HTML files to copy'' (html_step env))
        report))))
        empty_results
      of
        (t, results, None) \<Rightarrow> (t, results, None)
      | (t, results, Some error) \<Rightarrow>
          (t @ fst (logger_error ''Asset optimization process failed'' error []),
           results,
           Some (OptimizationError ''Asset optimization failed'' error [])))"

text \<open>\<open>main\<close> gives the events of the whole run and the status passed to \<open>process.exit\<close>.\<close>

definition main :: "env \<Rightarrow> event list \<times> nat" where
  "main env =
     (case processAssets env of
        (t, results, None) \<Rightarrow>
          (let hasErrors = length (errors results) > 0;
               exitCode = (if hasErrors then 1 else 0)
           in (Logged INFO ''Build optimization started'' [] # t @
               [Logged INFO ''Build optimization finished''
                  [(''success'', Bool (\<not> hasErrors)), (''exitCode'', Num exitCode)]],
               exitCode))
      | (t, results, Some error) \<Rightarrow>
          (Logged INFO ''Build optimization started'' [] # t @
           fst (logger_error ''Build optimization failed with fatal error'' error []),
           1))"

section \<open>Notions for stating the properties of a run\<close>

text \<open>
  The outcome of the transformer of each kind on a file, at the output location that the
  loop of \<open>processAssets\<close> computes for it.
\<close>

definition image_result :: "env \<Rightarrow> path \<Rightarrow> error + image_asset list" where
  "image_result env p = snd (optimizeImage env p (image_outputDir env p))"

definition css_result :: "env \<Rightarrow> path \<Rightarrow> error + asset" where
  "css_result env p = snd (optimizeCSS env p (outputPath_of env p))"

definition js_result :: "env \<Rightarrow> path \<Rightarrow> error + asset" where
  "js_result env p = snd (optimizeJS env p (outputPath_of env p))"

definition html_result :: "env \<Rightarrow> path \<Rightarrow> error + asset" where
  "html_result env p = snd (copyFile env p (outputPath_of env p))"

text \<open>
  \<open>failure env kind p\<close> is the error thrown by the transformer of the kind (\<open>'image'\<close>,
  \<open>'css'\<close>, \<open>'js'\<close>, otherwise the HTML copy) on the file \<open>p\<close>, if it throws;
  \<open>error_of\<close> is the entry that the \<open>catch\<close> block of the loop then pushes on
  \<open>results.errors\<close>.
\<close>

definition failure :: "env \<Rightarrow> string \<Rightarrow> path \<Rightarrow> error option" where
  "failure env kind p =
     (if kind = ''image'' then (case image_result env p of Inl e \<Rightarrow> Some e | Inr _ \<Rightarrow> None)
      else if kind = ''css'' then (case css_result env p of Inl e \<Rightarrow> Some e | Inr _ \<Rightarrow> None)
      else if kind = ''js'' then (case js_result env p of Inl e \<Rightarrow> Some e | Inr _ \<Rightarrow> None)
      else (case html_result env p of Inl e \<Rightarrow> Some e | Inr _ \<Rightarrow> None))"

definition error_of :: "env \<Rightarrow> string \<times> path \<Rightarrow> error_record list" where
  "error_of env kp =
     (case kp of (kind, p) \<Rightarrow>
        (case failure env kind p of
           Some e \<Rightarrow> [\<lparr>err_type = kind, err_path = p, err_error = message e\<rparr>]
         | None \<Rightarrow> []))"

text \<open>The asset records a file contributes: none when its transformer throws.\<close>

definition image_records :: "env \<Rightarrow> path \<Rightarrow> image_asset list" where
  "image_records env p = (case image_result env p of Inr optimized \<Rightarrow> optimized | Inl _ \<Rightarrow> [])"

definition record_of :: "error + asset \<Rightarrow> asset list" where
  "record_of r = (case r of Inr a \<Rightarrow> [a] | Inl _ \<Rightarrow> [])"

text \<open>
  The events of one loop iteration: those of the transformer and, when it throws, the
  error line of the \<open>catch\<close> block.
\<close>

definition iteration :: "env \<Rightarrow> string \<Rightarrow> path \<Rightarrow> event list" where
  "iteration env kind p =
     (if kind = ''image'' then fst (image_step env empty_results p)
      else if kind = ''css'' then fst (css_step env empty_results p)
      else if kind = ''js'' then fst (js_step env empty_results p)
      else fst (html_step env empty_results p))"

text \<open>
  The files a run iterates over. A \<open>glob\<close> call is reached only when the output directory
  could be ensured and every earlier \<open>glob\<close> call resolved; a call that is not reached, or
  that throws, contributes no file. \<open>fatal\<close> is the first error thrown outside the loops.
\<close>

definition found :: "env \<Rightarrow> string list \<Rightarrow> string list \<Rightarrow> path list" where
  "found env patterns ignore = (case glob env patterns ignore of Inr files \<Rightarrow> files | Inl _ \<Rightarrow> [])"

definition fatal :: "env \<Rightarrow> error option" where
  "fatal env =
     (case snd (ensureDirectory env (BUILD_DIR env)) of Inl e \<Rightarrow> Some e | Inr _ \<Rightarrow>
     (case glob env imagePatterns IGNORE of Inl e \<Rightarrow> Some e | Inr _ \<Rightarrow>
     (case glob env [''**/*.css''] IGNORE of Inl e \<Rightarrow> Some e | Inr _ \<Rightarrow>
     (case glob env [''**/*.js''] IGNORE_JS of Inl e \<Rightarrow> Some e | Inr _ \<Rightarrow>
     (case glob env [''**/*.html''] IGNORE of Inl e \<Rightarrow> Some e | Inr _ \<Rightarrow> None)))))"

definition imageFiles :: "env \<Rightarrow> path list" where
  "imageFiles env =
     (case snd (ensureDirectory env (BUILD_DIR env)) of Inl _ \<Rightarrow> [] | Inr _ \<Rightarrow>
        found env imagePatterns IGNORE)"

definition cssFiles :: "env \<Rightarrow> path list" where
  "cssFiles env =
     (case snd (ensureDirectory env (BUILD_DIR env)) of Inl _ \<Rightarrow> [] | Inr _ \<Rightarrow>
     (case glob env imagePatterns IGNORE of Inl _ \<Rightarrow> [] | Inr _ \<Rightarrow>
        found env [''**/*.css''] IGNORE))"

definition jsFiles :: "env \<Rightarrow> path list" where
  "jsFiles env =
     (case snd (ensureDirectory env (BUILD_DIR env)) of Inl _ \<Rightarrow> [] | Inr _ \<Rightarrow>
     (case glob env imagePatterns IGNORE of Inl _ \<Rightarrow> [] | Inr _ \<Rightarrow>
     (case glob env [''**/*.css''] IGNORE of Inl _ \<Rightarrow> [] | Inr _ \<Rightarrow>
        found env [''**/*.js''] IGNORE_JS)))"

definition htmlFiles :: "env \<Rightarrow> path list" where
  "htmlFiles env =
     (case snd (ensureDirectory env (BUILD_DIR env)) of Inl _ \<Rightarrow> [] | Inr _ \<Rightarrow>
     (case glob env imagePatterns IGNORE of Inl _ \<Rightarrow> [] | Inr _ \<Rightarrow>
     (case glob env [''**/*.css''] IGNORE of Inl _ \<Rightarrow> [] | Inr _ \<Rightarrow>
     (case glob env [''**/*.js''] IGNORE_JS of Inl _ \<Rightarrow> [] | Inr _ \<Rightarrow>
        found env [''**/*.html''] IGNORE))))"

definition discovered :: "env \<Rightarrow> (string \<times> path) list" where
  "discovered env =
     map (Pair ''image'') (imageFiles env) @ map (Pair ''css'') (cssFiles env) @
     map (Pair ''js'') (jsFiles env) @ map (Pair ''html'') (htmlFiles env)"

text \<open>The \<open>results\<close> object and the events of a run of \<open>processAssets\<close>.\<close>

definition run_results :: "env \<Rightarrow> results" where
  "run_results env = fst (snd (processAssets env))"

definition run_events :: "env \<Rightarrow> event list" where
  "run_events env = fst (processAssets env)"

text \<open>
  How many asset records the transformer returns for a file; whether those records are
  in the list of the file's kind in \<open>results\<close>; and the error records of \<open>results.errors\<close>
  whose \<open>path\<close> is the file.
\<close>

definition produced :: "env \<Rightarrow> string \<Rightarrow> path \<Rightarrow> nat" where
  "produced env kind p =
     (if kind = ''image'' then length (image_records env p)
      else if kind = ''css'' then length (record_of (css_result env p))
      else if kind = ''js'' then length (record_of (js_result env p))
      else length (record_of (html_result env p)))"

definition recorded :: "env \<Rightarrow> string \<Rightarrow> path \<Rightarrow> bool" where
  "recorded env kind p =
     (if kind = ''image'' then set (image_records env p) \<subseteq> set (images (run_results env))
      else if kind = ''css'' then set (record_of (css_result env p)) \<subseteq> set (css (run_results env))
      else if kind = ''js'' then set (record_of (js_result env p)) \<subseteq> set (js (run_results env))
      else set (record_of (html_result env p)) \<subseteq> set (html (run_results env)))"

text \<open>
  A file was attempted when the events of its loop iteration, of which there is at least
  one, are a stretch of the events of the run, and its outcome is in \<open>results\<close>: its
  error record if its transformer throws, its asset records otherwise.
\<close>

definition attempted :: "env \<Rightarrow> string \<Rightarrow> path \<Rightarrow> bool" where
  "attempted env kind p \<longleftrightarrow>
     iteration env kind p \<noteq> [] \<and> sublist (iteration env kind p) (run_events env) \<and>
     set (error_of env (kind, p)) \<subseteq> set (errors (run_results env)) \<and> recorded env kind p"

text \<open>The line \<open>logger.warn('Unsupported image format', { path: inputPath, ext })\<close>.\<close>

definition unsupported_warning :: "env \<Rightarrow> path \<Rightarrow> event" where
  "unsupported_warning env p =
     Logged WARN ''Unsupported image format''
       [(''path'', Str p), (''ext'', Str (toLowerCase (path_extname env p)))]"

definition errors_for :: "env \<Rightarrow> path \<Rightarrow> error_record list" where
  "errors_for env p = filter (\<lambda>r. err_path r = p) (errors (run_results env))"

section \<open>Discovery\<close>

text \<open>
  Modelled from the spec: the glob library is not part of the repository. Section 4.1
  (Discovery): given a source root and a set of exclusion globs, produce the set of
  absolute file paths matching a kind's extension patterns; no duplicates; exclusions
  always win over inclusions; the order is that of the walk. The tree is the list of
  the files under the root, by their paths relative to it. A pattern \<open>**/*<ext>\<close> matches
  the paths that end with \<open><ext>\<close>, an exclusion \<open><dir>/**\<close> the paths under \<open><dir>/\<close>.
\<close>

definition ends_with :: "string \<Rightarrow> string \<Rightarrow> bool" where
  "ends_with s e = (length e \<le> length s \<and> drop (length s - length e) s = e)"

definition starts_with :: "string \<Rightarrow> string \<Rightarrow> bool" where
  "starts_with s b = (take (length b) s = b)"

definition matches :: "string \<Rightarrow> path \<Rightarrow> bool" where
  "matches pattern p = (starts_with pattern ''**/*'' \<and> ends_with p (drop 4 pattern))"

definition excluded :: "string \<Rightarrow> path \<Rightarrow> bool" where
  "excluded pattern p =
     (ends_with pattern ''/**'' \<and> starts_with p (take (length pattern - 2) pattern))"

definition glob_model :: "path \<Rightarrow> path list \<Rightarrow> string list \<Rightarrow> string list \<Rightarrow> path list" where
  "glob_model cwd tree patterns ignore =
     map (\<lambda>p. cwd @ ''/'' @ p)
       (remdups
          (filter (\<lambda>p. list_ex (\<lambda>pattern. matches pattern p) patterns \<and>
                       \<not> list_ex (\<lambda>pattern. excluded pattern p) ignore) tree))"

text \<open>An environment whose discovery is the model above, over a given tree.\<close>

definition with_tree :: "env \<Rightarrow> path list \<Rightarrow> env" where
  "with_tree env tree =
     env\<lparr>glob := (\<lambda>patterns ignore. Inr (glob_model (SOURCE_DIR env) tree patterns ignore))\<rparr>"

text \<open>
  The extensions a run looks for: the image formats, and those of the three other kinds.
\<close>

definition DISCOVERY_EXTENSIONS :: "string list" where
  "DISCOVERY_EXTENSIONS = SUPPORTED_IMAGE_FORMATS @ [''.css'', ''.js'', ''.html'']"

section \<open>A concrete site\<close>

text \<open>
  An instance of the environment, used to run the script on small trees: a POSIX-like
  \<open>path\<close> module, a file system given by the files of the tree and their contents, and
  stand-ins for the tools. The files listed as broken cannot be read, decoded or copied.
  Every image is 30 pixels wide; an encoded image is as many bytes long as it is
  pixels wide; the minifier removes a leading \<open>debugger;\<close> when it is told to drop
  them; the other tools return their input.
\<close>

definition basename_model :: "path \<Rightarrow> string option \<Rightarrow> string" where
  "basename_model p ext =
     (let b = rev (takeWhile (\<lambda>c. c \<noteq> CHR ''/'') (rev p))
      in case ext of
           None \<Rightarrow> b
         | Some e \<Rightarrow> if ends_with b e \<and> b \<noteq> e then take (length b - length e) b else b)"

definition extname_model :: "path \<Rightarrow> string" where
  "extname_model p =
     (let b = basename_model p None
      in if CHR ''.'' \<in> set (tl b)
         then CHR ''.'' # rev (takeWhile (\<lambda>c. c \<noteq> CHR ''.'') (rev b))
         else [])"

definition dirname_model :: "path \<Rightarrow> path" where
  "dirname_model p =
     (let d = rev (drop 1 (dropWhile (\<lambda>c. c \<noteq> CHR ''/'') (rev p)))
      in if d = [] then ''.'' else d)"

definition join_model :: "path \<Rightarrow> path \<Rightarrow> path" where
  "join_model a b = (if b = ''.'' then a else a @ ''/'' @ b)"

definition minify_model :: "string \<Rightarrow> terser_options \<Rightarrow> minify_result" where
  "minify_model source opts =
     \<lparr>code = Some (if drop_debugger (compress opts) \<and> starts_with source ''debugger;''
                   then drop 9 source else source),
      code_map = Some ''{}''\<rparr>"

definition site :: "(path \<times> buffer) list \<Rightarrow> path list \<Rightarrow> env" where
  "site files broken =
     \<lparr>SOURCE_DIR = ''/site'',
      BUILD_DIR = ''/site/dist'',
      path_extname = extname_model,
      path_basename = basename_model,
      path_dirname = dirname_model,
      path_join = join_model,
      path_relative = (\<lambda>from p. drop (Suc (length from)) p),
      fs_access = (\<lambda>p. Inr ()),
      fs_mkdir = (\<lambda>p. Inr ()),
      fs_readFile =
        (\<lambda>p. if p \<in> set broken then Inl (Error ''EIO'')
             else (case map_of files (drop 6 p) of
                     Some b \<Rightarrow> Inr b
                   | None \<Rightarrow> Inl (Error ''ENOENT''))),
      fs_writeFile = (\<lambda>p b. Inr ()),
      fs_copyFile = (\<lambda>src dst. if src \<in> set broken then Inl (Error ''EIO'') else Inr ()),
      fs_stat = (\<lambda>p. Inr 0),
      glob = (\<lambda>patterns ignore. Inr (glob_model ''/site'' (map fst files) patterns ignore)),
      sharp_metadata =
        (\<lambda>p. if p \<in> set broken then Inl (Error ''unsupported image format'')
             else Inr \<lparr>width = 30\<rparr>),
      sharp_toBuffer = (\<lambda>p w opts enc. Inr (replicate (min w 30) CHR ''x'')),
      imagemin_buffer = (\<lambda>b plugin. Inr b),
      terserMinify = (\<lambda>source opts. Inr (minify_model source opts)),
      postcss_process = (\<lambda>plugins source from to. Inr \<lparr>css_text = source, css_map = None\<rparr>)\<rparr>"

text \<open>The number of positions of a text at which a word occurs.\<close>

fun occurrences :: "string \<Rightarrow> string \<Rightarrow> nat" where
  "occurrences w [] = (if w = [] then 1 else 0)"
| "occurrences w (c # cs) = (if take (length w) (c # cs) = w then 1 else 0) + occurrences w cs"

definition is_warning :: "event \<Rightarrow> bool" where
  "is_warning e = (case e of Logged WARN _ _ \<Rightarrow> True | _ \<Rightarrow> False)"

text \<open>Small trees to run the script on.\<close>

definition css_broken_site :: env where
  "css_broken_site =
     site [(''style.css'', ''a{}''), (''index.html'', ''<html>'')] [''/site/style.css'']"

text \<open>
  What the script relies on sharp for: with \<open>fit: 'inside'\<close>, the resized image is no
  wider than the width asked for. \<open>width_of\<close> reads the pixel width of an encoded image.
\<close>

definition fits_inside :: "env \<Rightarrow> (buffer \<Rightarrow> nat) \<Rightarrow> bool" where
  "fits_inside env width_of \<longleftrightarrow>
     (\<forall>p w opts enc b.
        sharp_toBuffer env p w opts enc = Inr b \<longrightarrow> fit opts = ''inside'' \<longrightarrow> width_of b \<le> w)"

text \<open>
  A site with one photograph.
\<close>

definition hero_site :: env where
  "hero_site = site [(''img/hero.jpg'', ''JFIF'')] []"

text \<open>
  What the script relies on terser for, on a given source: under \<open>drop_debugger\<close> the
  output has no debugger statement, and without \<open>drop_console\<close> it has the console calls
  of the source. \<open>debugger_statements\<close> and \<open>console_calls\<close> count them in a program text.
\<close>

definition honours_compress :: "(string \<Rightarrow> nat) \<Rightarrow> (string \<Rightarrow> nat) \<Rightarrow> env \<Rightarrow> string \<Rightarrow> bool" where
  "honours_compress debugger_statements console_calls env source \<longleftrightarrow>
     (\<forall>opts result minified.
        terserMinify env source opts = Inr result \<longrightarrow> code result = Some minified \<longrightarrow>
        (drop_debugger (compress opts) \<longrightarrow> debugger_statements minified = 0) \<and>
        (\<not> drop_console (compress opts) \<longrightarrow> console_calls minified = console_calls source))"

text \<open>
  What the script relies on svgo for, on a given source: with the plugin \<open>removeViewBox\<close>
  listed as inactive, the \<open>viewBox\<close> attribute of the output is that of the source.
  \<open>viewBox\<close> reads the attribute of an SVG text, if it has one.
\<close>

definition honours_svgo :: "(buffer \<Rightarrow> string option) \<Rightarrow> env \<Rightarrow> buffer \<Rightarrow> bool" where
  "honours_svgo viewBox env svg \<longleftrightarrow>
     (\<forall>plugins optimized.
        imagemin_buffer env svg (Svgo plugins) = Inr optimized \<longrightarrow>
        (''removeViewBox'', False) \<in> set plugins \<longrightarrow> (''removeViewBox'', True) \<notin> set plugins \<longrightarrow>
        viewBox optimized = viewBox svg)"

text \<open>
  A site with one script, a site with one vector image, a site with an empty script.
\<close>

definition app_source :: string where
  "app_source = ''debugger;console.log(1)''"

definition app_site :: env where
  "app_site = site [(''js/app.js'', app_source)] []"

definition logo_source :: string where
  "logo_source = ''<svg viewBox=(0 0 24 24)><path/></svg>''"

definition logo_site :: env where
  "logo_site = site [(''logo.svg'', logo_source)] []"

text \<open>
  The \<open>viewBox\<close> reader used on the vector image above.
\<close>

definition viewBox_model :: "buffer \<Rightarrow> string option" where
  "viewBox_model svg =
     (if occurrences ''viewBox=(0 0 24 24)'' svg = 0 then None else Some ''0 0 24 24'')"

definition empty_js_site :: env where
  "empty_js_site = site [(''js/empty.js'', []), (''index.html'', ''<html>'')] []"

text \<open>
  The error \<open>optimizeJS\<close> throws from its \<open>catch\<close> block, around the original error.
\<close>

definition js_error :: "env \<Rightarrow> path \<Rightarrow> path \<Rightarrow> error \<Rightarrow> error" where
  "js_error env inputPath outputPath original =
     OptimizationError
       (''Failed to optimize JavaScript: '' @ path_relative env (SOURCE_DIR env) inputPath) original
       [(''inputPath'', inputPath), (''outputPath'', outputPath)]"

text \<open>
  A site with a bitmap, and a site with a WebP image.
\<close>

definition bmp_site :: env where
  "bmp_site = site [(''img/old.bmp'', ''BM''), (''index.html'', ''<html>'')] []"

definition webp_site :: env where
  "webp_site = site [(''img/photo.webp'', ''RIFF'')] []"

text \<open>
  Whether the transformer of a kind throws on a file; the files a run iterates over for a
  kind; the key of a kind in the summary; and the \<open>count\<close> the summary gives under a key.
\<close>

definition failed :: "env \<Rightarrow> string \<Rightarrow> path \<Rightarrow> bool" where
  "failed env kind p = (failure env kind p \<noteq> None)"

definition files_of :: "env \<Rightarrow> string \<Rightarrow> path list" where
  "files_of env kind =
     (if kind = ''image'' then imageFiles env
      else if kind = ''css'' then cssFiles env
      else if kind = ''js'' then jsFiles env
      else htmlFiles env)"

definition summary_key :: "string \<Rightarrow> string" where
  "summary_key kind = (if kind = ''image'' then ''images'' else kind)"

definition summary_count :: "results \<Rightarrow> string \<Rightarrow> nat option" where
  "summary_count results key =
     (case map_of (summary results) key of
        Some (Obj entries) \<Rightarrow> (case map_of entries ''count'' of Some (Num n) \<Rightarrow> Some n | _ \<Rightarrow> None)
      | _ \<Rightarrow> None)"

text \<open>
  The number of files \<open>optimizeImage\<close> writes for an extension: the \<open>.webp\<close> rendition
  and a second one for JPEG and PNG sources, one file for \<open>.svg\<close> and \<open>.webp\<close> sources.
\<close>

definition renditions :: "string \<Rightarrow> nat" where
  "renditions ext =
     (if ext \<in> {''.jpg'', ''.jpeg'', ''.png''} then 2
      else if ext \<in> {''.svg'', ''.webp''} then 1
      else 0)"

text \<open>
  Two photographs, the second one broken; two stylesheets, the second one broken.
\<close>

definition two_jpg_site :: env where
  "two_jpg_site = site [(''a.jpg'', ''JFIF''), (''b.jpg'', ''JFIF'')] [''/site/b.jpg'']"

definition two_css_site :: env where
  "two_css_site = site [(''a.css'', ''a{}''), (''b.css'', ''b{}'')] [''/site/b.css'']"

text \<open>
  The extensions that the patterns of a kind look for.
\<close>

definition kind_extensions :: "string \<Rightarrow> string list" where
  "kind_extensions kind =
     (if kind = ''image'' then SUPPORTED_IMAGE_FORMATS
      else if kind = ''css'' then [''.css'']
      else if kind = ''js'' then [''.js'']
      else [''.html''])"

section \<open>The computations\<close>

lemma await_Inr_iff:
  "await m k = (t, Inr y) \<longleftrightarrow> (\<exists>t1 x t2. m = (t1, Inr x) \<and> k x = (t2, Inr y) \<and> t = t1 @ t2)"
  by (cases m) (auto simp: await_def split: sum.splits prod.splits)

lemma snd_await_Inr:
  "snd (await m k) = Inr y \<longleftrightarrow> (\<exists>x. snd m = Inr x \<and> snd (k x) = Inr y)"
  by (cases m) (auto simp: await_def split: sum.splits prod.splits)

lemma optimizeImage_svg_nonempty:
  "snd (optimizeImage_svg env p d b r) = Inr recs \<Longrightarrow> recs \<noteq> []"
  by (auto simp: optimizeImage_svg_def snd_await_Inr Let_def return_def)

lemma optimizeImage_second_nonempty:
  "snd (optimizeImage_second env p d ext b w xs) = Inr recs \<Longrightarrow> xs \<noteq> [] \<Longrightarrow> recs \<noteq> []"
  by (auto simp: optimizeImage_second_def snd_await_Inr Let_def return_def split: if_splits)

lemma optimizeImage_raster_nonempty:
  "snd (optimizeImage_raster env p d ext b r) = Inr recs \<Longrightarrow> recs \<noteq> []"
  by (auto simp: optimizeImage_raster_def snd_await_Inr Let_def return_def dest!: optimizeImage_second_nonempty)

lemma snd_try_catch_Inr:
  "snd (try_catch m h) = Inr y \<longleftrightarrow> (snd m = Inr y \<or> (\<exists>e. snd m = Inl e \<and> snd (h e) = Inr y))"
  by (cases m) (auto simp: try_catch_def split: sum.splits prod.splits)

lemma snd_try_catch_Inl:
  "snd (try_catch m h) = Inl e' \<longleftrightarrow> (\<exists>e. snd m = Inl e \<and> snd (h e) = Inl e')"
  by (cases m) (auto simp: try_catch_def split: sum.splits prod.splits)

lemma optimizeImage_unsupported:
  "toLowerCase (path_extname env p) \<notin> set SUPPORTED_IMAGE_FORMATS \<Longrightarrow>
   optimizeImage env p d =
     ([Logged WARN ''Unsupported image format''
         [(''path'', Str p), (''ext'', Str (toLowerCase (path_extname env p)))]], Inr [])"
  by (simp add: optimizeImage_def Let_def await_def logger_warn_def return_def)

lemma optimizeImage_supported_nonempty:
  "toLowerCase (path_extname env p) \<in> set SUPPORTED_IMAGE_FORMATS \<Longrightarrow>
   snd (optimizeImage env p d) = Inr recs \<Longrightarrow> recs \<noteq> []"
  by (auto simp: optimizeImage_def Let_def snd_try_catch_Inr snd_await_Inr throw_def
      dest: optimizeImage_svg_nonempty optimizeImage_raster_nonempty split: if_splits)

lemma optimizeImage_throws:
  "snd (optimizeImage env p d) = Inl e \<Longrightarrow>
   message e = ''Failed to optimize image: '' @ path_relative env (SOURCE_DIR env) p"
  by (auto simp: optimizeImage_def Let_def snd_try_catch_Inl throw_def await_def logger_warn_def return_def split: if_splits)

section \<open>The loops\<close>

lemma image_step_eq:
  "image_step env r p =
     (iteration env ''image'' p,
      r\<lparr>images := images r @ image_records env p,
        errors := errors r @ error_of env (''image'', p)\<rparr>)"
  by (cases "optimizeImage env p (image_outputDir env p)")
     (auto simp: image_step_def iteration_def image_records_def record_of_def error_of_def failure_def
        image_result_def split: sum.splits)

lemma for_each_image_step:
  "for_each (image_step env) files r =
     (concat (map (iteration env ''image'') files),
      r\<lparr>images := images r @ concat (map (\<lambda>p. image_records env p) files),
        errors := errors r @ concat (map (\<lambda>p. error_of env (''image'', p)) files)\<rparr>)"
  by (induction files arbitrary: r) (simp_all add: image_step_eq)

lemma css_step_eq:
  "css_step env r p =
     (iteration env ''css'' p,
      r\<lparr>css := css r @ record_of (css_result env p),
        errors := errors r @ error_of env (''css'', p)\<rparr>)"
  by (cases "optimizeCSS env p (outputPath_of env p)")
     (auto simp: css_step_def iteration_def image_records_def record_of_def error_of_def failure_def
        css_result_def split: sum.splits)

lemma for_each_css_step:
  "for_each (css_step env) files r =
     (concat (map (iteration env ''css'') files),
      r\<lparr>css := css r @ concat (map (\<lambda>p. record_of (css_result env p)) files),
        errors := errors r @ concat (map (\<lambda>p. error_of env (''css'', p)) files)\<rparr>)"
  by (induction files arbitrary: r) (simp_all add: css_step_eq)

lemma js_step_eq:
  "js_step env r p =
     (iteration env ''js'' p,
      r\<lparr>js := js r @ record_of (js_result env p),
        errors := errors r @ error_of env (''js'', p)\<rparr>)"
  by (cases "optimizeJS env p (outputPath_of env p)")
     (auto simp: js_step_def iteration_def image_records_def record_of_def error_of_def failure_def
        js_result_def split: sum.splits)

lemma for_each_js_step:
  "for_each (js_step env) files r =
     (concat (map (iteration env ''js'') files),
      r\<lparr>js := js r @ concat (map (\<lambda>p. record_of (js_result env p)) files),
        errors := errors r @ concat (map (\<lambda>p. error_of env (''js'', p)) files)\<rparr>)"
  by (induction files arbitrary: r) (simp_all add: js_step_eq)

lemma html_step_eq:
  "html_step env r p =
     (iteration env ''html'' p,
      r\<lparr>html := html r @ record_of (html_result env p),
        errors := errors r @ error_of env (''html'', p)\<rparr>)"
  by (cases "copyFile env p (outputPath_of env p)")
     (auto simp: html_step_def iteration_def image_records_def record_of_def error_of_def failure_def
        html_result_def split: sum.splits)

lemma for_each_html_step:
  "for_each (html_step env) files r =
     (concat (map (iteration env ''html'') files),
      r\<lparr>html := html r @ concat (map (\<lambda>p. record_of (html_result env p)) files),
        errors := errors r @ concat (map (\<lambda>p. error_of env (''html'', p)) files)\<rparr>)"
  by (induction files arbitrary: r) (simp_all add: html_step_eq)

section \<open>The run\<close>

lemma discover_image:
  "discover env pats ign msg (image_step env) r =
     (case glob env pats ign of
        Inl e \<Rightarrow> ([], r, Some e)
      | Inr files \<Rightarrow>
          (Logged INFO msg [(''count'', Num (length files))] #
             concat (map (iteration env ''image'') files),
           r\<lparr>images := images r @ concat (map (image_records env) files),
             errors := errors r @ concat (map (\<lambda>p. error_of env (''image'', p)) files)\<rparr>,
           None))"
  by (simp add: discover_def for_each_image_step split: sum.splits)

lemma discover_css:
  "discover env pats ign msg (css_step env) r =
     (case glob env pats ign of
        Inl e \<Rightarrow> ([], r, Some e)
      | Inr files \<Rightarrow>
          (Logged INFO msg [(''count'', Num (length files))] #
             concat (map (iteration env ''css'') files),
           r\<lparr>css := css r @ concat (map (\<lambda>p. record_of (css_result env p)) files),
             errors := errors r @ concat (map (\<lambda>p. error_of env (''css'', p)) files)\<rparr>,
           None))"
  by (simp add: discover_def for_each_css_step split: sum.splits)

lemma discover_js:
  "discover env pats ign msg (js_step env) r =
     (case glob env pats ign of
        Inl e \<Rightarrow> ([], r, Some e)
      | Inr files \<Rightarrow>
          (Logged INFO msg [(''count'', Num (length files))] #
             concat (map (iteration env ''js'') files),
           r\<lparr>js := js r @ concat (map (\<lambda>p. record_of (js_result env p)) files),
             errors := errors r @ concat (map (\<lambda>p. error_of env (''js'', p)) files)\<rparr>,
           None))"
  by (simp add: discover_def for_each_js_step split: sum.splits)

lemma discover_html:
  "discover env pats ign msg (html_step env) r =
     (case glob env pats ign of
        Inl e \<Rightarrow> ([], r, Some e)
      | Inr files \<Rightarrow>
          (Logged INFO msg [(''count'', Num (length files))] #
             concat (map (iteration env ''html'') files),
           r\<lparr>html := html r @ concat (map (\<lambda>p. record_of (html_result env p)) files),
             errors := errors r @ concat (map (\<lambda>p. error_of env (''html'', p)) files)\<rparr>,
           None))"
  by (simp add: discover_def for_each_html_step split: sum.splits)

lemmas discover_eqs = discover_image discover_css discover_js discover_html

lemmas found_defs = imageFiles_def cssFiles_def jsFiles_def htmlFiles_def found_def


lemma processAssets_results:
  "run_results env =
     \<lparr>images = concat (map (image_records env) (imageFiles env)),
      css = concat (map (\<lambda>p. record_of (css_result env p)) (cssFiles env)),
      js = concat (map (\<lambda>p. record_of (js_result env p)) (jsFiles env)),
      html = concat (map (\<lambda>p. record_of (html_result env p)) (htmlFiles env)),
      other = [],
      errors = concat (map (error_of env) (discovered env))\<rparr>"
  by (cases "ensureDirectory env (BUILD_DIR env)")
     (simp add: run_results_def processAssets_def and_then_def prepare_def discover_eqs report_def
        empty_results_def found_defs discovered_def comp_def
        split: sum.splits option.splits prod.splits)

lemma processAssets_thrown:
  "snd (snd (processAssets env)) =
     map_option (\<lambda>e. OptimizationError ''Asset optimization failed'' e []) (fatal env)"
  by (cases "ensureDirectory env (BUILD_DIR env)")
     (simp add: processAssets_def and_then_def prepare_def discover_eqs report_def
        fatal_def split: sum.splits option.splits prod.splits)

section \<open>Every iteration leaves a trace\<close>

lemma try_catch_Inr_iff:
  "try_catch m h = (t, Inr y) \<longleftrightarrow>
     m = (t, Inr y) \<or> (\<exists>t1 e t2. m = (t1, Inl e) \<and> h e = (t2, Inr y) \<and> t = t1 @ t2)"
  by (cases m) (auto simp: try_catch_def split: sum.splits prod.splits)

lemma optimizeImage_svg_logs:
  "optimizeImage_svg env p d b r = (t, Inr recs) \<Longrightarrow> t \<noteq> []"
  by (auto simp: optimizeImage_svg_def await_Inr_iff Let_def return_def logger_info_def)

lemma optimizeImage_raster_logs:
  "optimizeImage_raster env p d ext b r = (t, Inr recs) \<Longrightarrow> t \<noteq> []"
  by (auto simp: optimizeImage_raster_def await_Inr_iff Let_def return_def logger_info_def)

lemma optimizeImage_logs:
  "optimizeImage env p d = (t, Inr recs) \<Longrightarrow> t \<noteq> []"
  by (auto simp: optimizeImage_def Let_def try_catch_Inr_iff await_Inr_iff throw_def
        logger_warn_def return_def
      dest: optimizeImage_svg_logs optimizeImage_raster_logs split: if_splits)

lemma optimizeCSS_logs:
  "optimizeCSS env p out = (t, Inr a) \<Longrightarrow> t \<noteq> []"
  by (auto simp: optimizeCSS_def Let_def try_catch_Inr_iff await_Inr_iff throw_def
        logger_info_def return_def)

lemma optimizeJS_logs:
  "optimizeJS env p out = (t, Inr a) \<Longrightarrow> t \<noteq> []"
  by (auto simp: optimizeJS_def Let_def try_catch_Inr_iff await_Inr_iff throw_def
        logger_info_def return_def split: if_splits)

lemma copyFile_logs:
  "copyFile env p out = (t, Inr a) \<Longrightarrow> t \<noteq> []"
  by (auto simp: copyFile_def Let_def try_catch_Inr_iff await_Inr_iff throw_def
        logger_info_def return_def)

lemma iteration_nonempty: "iteration env kind p \<noteq> []"
proof -
  have "fst (image_step env r p) \<noteq> []" for r
    by (cases "optimizeImage env p (image_outputDir env p)")
       (auto simp: image_step_def logger_error_def dest: optimizeImage_logs split: sum.splits)
  moreover have "fst (css_step env r p) \<noteq> []" for r
    by (cases "optimizeCSS env p (outputPath_of env p)")
       (auto simp: css_step_def logger_error_def dest: optimizeCSS_logs split: sum.splits)
  moreover have "fst (js_step env r p) \<noteq> []" for r
    by (cases "optimizeJS env p (outputPath_of env p)")
       (auto simp: js_step_def logger_error_def dest: optimizeJS_logs split: sum.splits)
  moreover have "fst (html_step env r p) \<noteq> []" for r
    by (cases "copyFile env p (outputPath_of env p)")
       (auto simp: html_step_def logger_error_def dest: copyFile_logs split: sum.splits)
  ultimately show ?thesis
    by (simp add: iteration_def)
qed

section \<open>The events of a run\<close>

lemma sublist_concat_map: "x \<in> set xs \<Longrightarrow> sublist (f x) (concat (map f xs))"
proof -
  assume "x \<in> set xs"
  then obtain ys zs where "xs = ys @ x # zs"
    by (auto simp: in_set_conv_decomp)
  then have "concat (map f xs) = concat (map f ys) @ f x @ concat (map f zs)"
    by simp
  then show ?thesis
    unfolding sublist_def by blast
qed

lemma sublist_skip: "sublist xs ys \<Longrightarrow> sublist xs (y # ys)"
  by (simp add: sublist_Cons_right)

lemma sublist_after: "sublist xs ys \<Longrightarrow> sublist xs (zs @ ys)"
  by (metis sublist_append_leftI sublist_order.order_trans)

lemma sublist_before: "sublist xs ys \<Longrightarrow> sublist xs (ys @ zs)"
  by (metis sublist_append_rightI sublist_order.order_trans)

lemma sublist_and_then_first:
  "sublist xs (fst (p r)) \<Longrightarrow> sublist xs (fst (and_then p q r))"
  by (cases "p r") (auto simp: and_then_def split: option.splits prod.splits intro: sublist_before)

lemma sublist_and_then_second:
  "snd (snd (p r)) = None \<Longrightarrow> sublist xs (fst (q (fst (snd (p r))))) \<Longrightarrow>
   sublist xs (fst (and_then p q r))"
  by (cases "p r") (auto simp: and_then_def split: option.splits prod.splits intro: sublist_after)

lemma prepare_ok:
  "snd (ensureDirectory env (BUILD_DIR env)) = Inr u \<Longrightarrow> snd (snd (prepare env r)) = None"
  by (cases "ensureDirectory env (BUILD_DIR env)") (auto simp: prepare_def)

lemma discover_ok:
  "glob env pats ign = Inr files \<Longrightarrow> snd (snd (discover env pats ign msg body r)) = None"
  by (simp add: discover_def split: prod.splits)

lemma discover_events:
  "glob env pats ign = Inr files \<Longrightarrow>
   sublist (concat (map (iteration env ''image'') files))
     (fst (discover env pats ign msg (image_step env) r))"
  "glob env pats ign = Inr files \<Longrightarrow>
   sublist (concat (map (iteration env ''css'') files))
     (fst (discover env pats ign msg (css_step env) r))"
  "glob env pats ign = Inr files \<Longrightarrow>
   sublist (concat (map (iteration env ''js'') files))
     (fst (discover env pats ign msg (js_step env) r))"
  "glob env pats ign = Inr files \<Longrightarrow>
   sublist (concat (map (iteration env ''html'') files))
     (fst (discover env pats ign msg (html_step env) r))"
  by (simp_all add: discover_eqs sublist_skip)

lemma run_events_chain:
  "sublist xs (fst (and_then p q empty_results)) \<Longrightarrow>
   sublist xs
     (fst (case and_then p q empty_results of
             (t, results, None) \<Rightarrow> (t, results, None)
           | (t, results, Some error) \<Rightarrow> (t @ extra error, results, Some (wrap error))))"
  by (cases "and_then p q empty_results")
     (auto split: option.splits intro: sublist_before)

lemma run_events_image:
  "sublist (concat (map (iteration env ''image'') (imageFiles env))) (run_events env)"
proof (cases "imageFiles env = []")
  case True
  then show ?thesis by simp
next
  case False
  then obtain u files where
    ok: "snd (ensureDirectory env (BUILD_DIR env)) = Inr u"
      "glob env imagePatterns IGNORE = Inr files" "imageFiles env = files"
    by (auto simp: found_defs split: sum.splits)
  show ?thesis
    unfolding run_events_def processAssets_def logger_error_def fst_conv ok(3)
    by (intro run_events_chain sublist_and_then_second [OF prepare_ok [OF ok(1)]]
          sublist_and_then_first discover_events ok(2))
qed

lemma run_events_css:
  "sublist (concat (map (iteration env ''css'') (cssFiles env))) (run_events env)"
proof (cases "cssFiles env = []")
  case True
  then show ?thesis by simp
next
  case False
  then obtain u imgs files where
    ok: "snd (ensureDirectory env (BUILD_DIR env)) = Inr u"
      "glob env imagePatterns IGNORE = Inr imgs"
      "glob env [''**/*.css''] IGNORE = Inr files" "cssFiles env = files"
    by (auto simp: found_defs split: sum.splits)
  show ?thesis
    unfolding run_events_def processAssets_def logger_error_def fst_conv ok(4)
    by (intro run_events_chain sublist_and_then_second [OF prepare_ok [OF ok(1)]]
          sublist_and_then_second [OF discover_ok [OF ok(2)]]
          sublist_and_then_first discover_events ok(3))
qed

lemma run_events_js:
  "sublist (concat (map (iteration env ''js'') (jsFiles env))) (run_events env)"
proof (cases "jsFiles env = []")
  case True
  then show ?thesis by simp
next
  case False
  then obtain u imgs sheets files where
    ok: "snd (ensureDirectory env (BUILD_DIR env)) = Inr u"
      "glob env imagePatterns IGNORE = Inr imgs"
      "glob env [''**/*.css''] IGNORE = Inr sheets"
      "glob env [''**/*.js''] IGNORE_JS = Inr files" "jsFiles env = files"
    by (auto simp: found_defs split: sum.splits)
  show ?thesis
    unfolding run_events_def processAssets_def logger_error_def fst_conv ok(5)
    by (intro run_events_chain sublist_and_then_second [OF prepare_ok [OF ok(1)]]
          sublist_and_then_second [OF discover_ok [OF ok(2)]]
          sublist_and_then_second [OF discover_ok [OF ok(3)]]
          sublist_and_then_first discover_events ok(4))
qed

lemma run_events_html:
  "sublist (concat (map (iteration env ''html'') (htmlFiles env))) (run_events env)"
proof (cases "htmlFiles env = []")
  case True
  then show ?thesis by simp
next
  case False
  then obtain u imgs sheets scripts files where
    ok: "snd (ensureDirectory env (BUILD_DIR env)) = Inr u"
      "glob env imagePatterns IGNORE = Inr imgs"
      "glob env [''**/*.css''] IGNORE = Inr sheets"
      "glob env [''**/*.js''] IGNORE_JS = Inr scripts"
      "glob env [''**/*.html''] IGNORE = Inr files" "htmlFiles env = files"
    by (auto simp: found_defs split: sum.splits)
  show ?thesis
    unfolding run_events_def processAssets_def logger_error_def fst_conv ok(6)
    by (intro run_events_chain sublist_and_then_second [OF prepare_ok [OF ok(1)]]
          sublist_and_then_second [OF discover_ok [OF ok(2)]]
          sublist_and_then_second [OF discover_ok [OF ok(3)]]
          sublist_and_then_second [OF discover_ok [OF ok(4)]]
          sublist_and_then_first discover_events ok(5))
qed

lemma discovered_cases:
  "(kind, p) \<in> set (discovered env) \<longleftrightarrow>
     kind = ''image'' \<and> p \<in> set (imageFiles env) \<or> kind = ''css'' \<and> p \<in> set (cssFiles env) \<or>
     kind = ''js'' \<and> p \<in> set (jsFiles env) \<or> kind = ''html'' \<and> p \<in> set (htmlFiles env)"
  by (auto simp: discovered_def)

lemma iteration_in_run:
  assumes "(kind, p) \<in> set (discovered env)"
  shows "sublist (iteration env kind p) (run_events env)"
proof -
  from assms consider
      "kind = ''image''" "p \<in> set (imageFiles env)"
    | "kind = ''css''" "p \<in> set (cssFiles env)"
    | "kind = ''js''" "p \<in> set (jsFiles env)"
    | "kind = ''html''" "p \<in> set (htmlFiles env)"
    by (auto simp: discovered_cases)
  then show ?thesis
  proof cases
    case 1
    then show ?thesis
      using sublist_concat_map [of p "imageFiles env" "iteration env ''image''"]
        run_events_image [of env]
      by (blast intro: sublist_order.order_trans)
  next
    case 2
    then show ?thesis
      using sublist_concat_map [of p "cssFiles env" "iteration env ''css''"]
        run_events_css [of env]
      by (blast intro: sublist_order.order_trans)
  next
    case 3
    then show ?thesis
      using sublist_concat_map [of p "jsFiles env" "iteration env ''js''"]
        run_events_js [of env]
      by (blast intro: sublist_order.order_trans)
  next
    case 4
    then show ?thesis
      using sublist_concat_map [of p "htmlFiles env" "iteration env ''html''"]
        run_events_html [of env]
      by (blast intro: sublist_order.order_trans)
  qed
qed

lemma errors_of_path:
  assumes "distinct (map snd kps)" "(kind, p) \<in> set kps"
  shows "filter (\<lambda>r. err_path r = p) (concat (map (error_of env) kps)) = error_of env (kind, p)"
  using assms
proof (induction kps)
  case Nil
  then show ?case by simp
next
  case (Cons kp kps)
  obtain k q where kp: "kp = (k, q)" by (cases kp)
  have other: "filter (\<lambda>r. err_path r = p) (error_of env (k', q')) = []" if "q' \<noteq> p" for k' q'
    using that by (auto simp: error_of_def split: option.splits)
  have own: "filter (\<lambda>r. err_path r = p) (error_of env (k', p)) = error_of env (k', p)" for k'
    by (auto simp: error_of_def split: option.splits)
  have none: "filter (\<lambda>r. err_path r = p) (concat (map (error_of env) xs)) = []"
    if "p \<notin> snd ` set xs" for xs
    using that by (induction xs) (auto simp: error_of_def split: option.splits)
  show ?case
  proof (cases "kp = (kind, p)")
    case True
    with Cons.prems have "p \<notin> snd ` set kps" by auto
    with True show ?thesis by (simp add: own none)
  next
    case False
    with Cons.prems kp have "q \<noteq> p" "(kind, p) \<in> set kps" "distinct (map snd kps)"
      by (auto simp: image_iff)
    with Cons.IH kp show ?thesis by (simp add: other)
  qed
qed

section \<open>Exit status\<close>

lemma main_exit:
  "snd (main env) = (if errors (run_results env) \<noteq> [] \<or> fatal env \<noteq> None then 1 else 0)"
  using processAssets_thrown[of env]
  by (cases "processAssets env") (auto simp: main_def run_results_def Let_def split: option.splits)

text \<open>
  C1. The status passed to \<open>process.exit\<close> is non-zero exactly when \<open>results.errors\<close>
  holds at least one error record or the run failed outside the per-file loops (the
  output directory could not be ensured, or a \<open>glob\<close> call threw), which is exactly when
  \<open>processAssets\<close> throws; the status is 0 or 1.
\<close>

theorem main_exit_status:
  "(snd (main env) \<noteq> 0 \<longleftrightarrow> errors (run_results env) \<noteq> [] \<or> fatal env \<noteq> None) \<and>
   (snd (main env) = 0 \<or> snd (main env) = 1) \<and>
   (fatal env \<noteq> None \<longleftrightarrow> snd (snd (processAssets env)) \<noteq> None)"
  by (simp add: main_exit processAssets_thrown)

theorem main_exit_status_witness:
  "errors (run_results css_broken_site) \<noteq> [] \<and> snd (main css_broken_site) \<noteq> 0"
proof -
  have "errors (run_results css_broken_site) \<noteq> []"
    by code_simp
  with main_exit_status [of css_broken_site] show ?thesis
    by blast
qed

section \<open>Failure isolation and accounting\<close>

lemma recorded_discovered:
  "(kind, p) \<in> set (discovered env) \<Longrightarrow> recorded env kind p"
  by (auto simp: discovered_cases recorded_def processAssets_results)

lemma error_of_recorded:
  "(kind, p) \<in> set (discovered env) \<Longrightarrow>
   set (error_of env (kind, p)) \<subseteq> set (errors (run_results env))"
  by (auto simp: processAssets_results)

lemma attempted_discovered:
  "(kind, p) \<in> set (discovered env) \<Longrightarrow> attempted env kind p"
  unfolding attempted_def
  by (intro conjI iteration_nonempty iteration_in_run recorded_discovered error_of_recorded)

lemma errors_for_discovered:
  "distinct (map snd (discovered env)) \<Longrightarrow> (kind, p) \<in> set (discovered env) \<Longrightarrow>
   errors_for env p = error_of env (kind, p)"
  by (simp add: errors_for_def processAssets_results errors_of_path)

text \<open>
  C2. When the files discovered in a run are pairwise distinct and the transformer of a
  discovered file throws, \<open>results.errors\<close> holds exactly one error record for that
  file (its kind, its path, the message of the error), and every discovered file of every
  kind is attempted.
\<close>

theorem failure_isolation:
  assumes "distinct (map snd (discovered env))"
    and "(kind, p) \<in> set (discovered env)"
    and "failure env kind p = Some e"
  shows "errors_for env p = [\<lparr>err_type = kind, err_path = p, err_error = message e\<rparr>] \<and>
         (\<forall>(k, q) \<in> set (discovered env). attempted env k q)"
  using assms by (auto simp: errors_for_discovered error_of_def attempted_discovered)

theorem failure_isolation_witness:
  "distinct (map snd (discovered css_broken_site)) \<and>
   (''css'', ''/site/style.css'') \<in> set (discovered css_broken_site) \<and>
   failure css_broken_site ''css'' ''/site/style.css'' =
     Some (OptimizationError ''Failed to optimize CSS: style.css'' (Error ''EIO'')
             [(''inputPath'', ''/site/style.css''), (''outputPath'', ''/site/dist/style.css'')]) \<and>
   errors_for css_broken_site ''/site/style.css'' =
     [\<lparr>err_type = ''css'', err_path = ''/site/style.css'',
       err_error = ''Failed to optimize CSS: style.css''\<rparr>] \<and>
   attempted css_broken_site ''html'' ''/site/index.html''"
proof -
  have d: "distinct (map snd (discovered css_broken_site))"
    by code_simp
  have m: "(''css'', ''/site/style.css'') \<in> set (discovered css_broken_site)"
    by code_simp
  have f: "failure css_broken_site ''css'' ''/site/style.css'' =
     Some (OptimizationError ''Failed to optimize CSS: style.css'' (Error ''EIO'')
             [(''inputPath'', ''/site/style.css''), (''outputPath'', ''/site/dist/style.css'')])"
    by code_simp
  have h: "(''html'', ''/site/index.html'') \<in> set (discovered css_broken_site)"
    by code_simp
  from failure_isolation [OF d m f] h d m f show ?thesis
    by auto
qed

lemma produced_other:
  "kind \<noteq> ''image'' \<Longrightarrow> failure env kind p = None \<Longrightarrow> produced env kind p = 1"
  by (auto simp: produced_def failure_def record_of_def split: sum.splits if_splits)

lemma image_unsupported_iff:
  assumes "failure env ''image'' p = None"
  shows "produced env ''image'' p = 0 \<longleftrightarrow>
         toLowerCase (path_extname env p) \<notin> set SUPPORTED_IMAGE_FORMATS"
proof
  assume "produced env ''image'' p = 0"
  with assms have "image_result env p = Inr []"
    by (auto simp: produced_def image_records_def failure_def split: sum.splits)
  then show "toLowerCase (path_extname env p) \<notin> set SUPPORTED_IMAGE_FORMATS"
    using optimizeImage_supported_nonempty [of env p "image_outputDir env p" "[]"]
    by (auto simp: image_result_def)
next
  assume "toLowerCase (path_extname env p) \<notin> set SUPPORTED_IMAGE_FORMATS"
  then show "produced env ''image'' p = 0"
    by (simp add: produced_def image_records_def image_result_def optimizeImage_unsupported)
qed

lemma unsupported_iteration:
  "toLowerCase (path_extname env p) \<notin> set SUPPORTED_IMAGE_FORMATS \<Longrightarrow>
   iteration env ''image'' p = [unsupported_warning env p]"
  by (simp add: iteration_def image_step_def optimizeImage_unsupported unsupported_warning_def)

text \<open>
  C3. When the files discovered in a run are pairwise distinct, every discovered file
  ends the run in exactly one of three ways: its transformer returned at least one asset
  record, all of them in \<open>results\<close>, and there is no error record for it; or it is an
  image with an extension outside the supported set, with no asset record, the warning
  among the events of the run and no error record; or its transformer threw and
  \<open>results.errors\<close> holds exactly one error record for it.
\<close>

theorem every_file_accounted:
  assumes "distinct (map snd (discovered env))"
    and "(kind, p) \<in> set (discovered env)"
  shows "(failure env kind p = None \<and> produced env kind p > 0 \<and> recorded env kind p \<and>
            errors_for env p = []) \<or>
         (failure env kind p = None \<and> produced env kind p = 0 \<and> kind = ''image'' \<and>
            toLowerCase (path_extname env p) \<notin> set SUPPORTED_IMAGE_FORMATS \<and>
            unsupported_warning env p \<in> set (run_events env) \<and> errors_for env p = []) \<or>
         (\<exists>e. failure env kind p = Some e \<and>
            errors_for env p = [\<lparr>err_type = kind, err_path = p, err_error = message e\<rparr>])"
proof (cases "failure env kind p")
  case (Some e)
  with assms show ?thesis
    by (simp add: errors_for_discovered error_of_def)
next
  case None
  with assms have no_error: "errors_for env p = []"
    by (simp add: errors_for_discovered error_of_def)
  show ?thesis
  proof (cases "produced env kind p = 0")
    case False
    with None no_error assms(2) show ?thesis
      by (simp add: recorded_discovered)
  next
    case True
    with None have image: "kind = ''image''"
      using produced_other [of kind env p] by auto
    with None True have ext: "toLowerCase (path_extname env p) \<notin> set SUPPORTED_IMAGE_FORMATS"
      by (simp add: image_unsupported_iff)
    from assms(2) image have "sublist (iteration env ''image'' p) (run_events env)"
      by (simp add: iteration_in_run)
    with ext have "unsupported_warning env p \<in> set (run_events env)"
      using set_mono_sublist [of "[unsupported_warning env p]" "run_events env"]
      by (simp add: unsupported_iteration)
    with None True image ext no_error show ?thesis
      by simp
  qed
qed

theorem every_file_accounted_witness:
  "distinct (map snd (discovered css_broken_site)) \<and>
   (''html'', ''/site/index.html'') \<in> set (discovered css_broken_site) \<and>
   failure css_broken_site ''html'' ''/site/index.html'' = None \<and>
   produced css_broken_site ''html'' ''/site/index.html'' > 0 \<and>
   recorded css_broken_site ''html'' ''/site/index.html'' \<and>
   errors_for css_broken_site ''/site/index.html'' = []"
proof -
  have d: "distinct (map snd (discovered css_broken_site))"
    by code_simp
  have m: "(''html'', ''/site/index.html'') \<in> set (discovered css_broken_site)"
    by code_simp
  have f: "failure css_broken_site ''html'' ''/site/index.html'' = None"
    by code_simp
  from every_file_accounted [OF d m] f d m show ?thesis
    by auto
qed

section \<open>Raster images: the clamped width\<close>

lemma writeFile_Inr_iff:
  "writeFile env p b = (t, Inr u) \<longleftrightarrow> t = [Wrote p b] \<and> (\<exists>v. fs_writeFile env p b = Inr v)"
  by (auto simp: writeFile_def split: sum.splits)

lemma optimizeImage_raster_webp:
  assumes "optimizeImage_raster env inputPath outputDir ext basename relativePath = (t, Inr files)"
  shows "\<exists>metadata webpBuffer.
           sharp_metadata env inputPath = Inr metadata \<and>
           sharp_toBuffer env inputPath (min (width metadata) MAX_IMAGE_WIDTH) RESIZE_OPTIONS
             (Webp IMAGE_QUALITY_webp) = Inr webpBuffer \<and>
           Wrote (path_join env outputDir (basename @ ''.webp'')) webpBuffer \<in> set t"
  using assms
  by (auto simp: optimizeImage_raster_def await_Inr_iff Let_def call_def writeFile_Inr_iff)

lemma optimizeImage_supported_raster:
  assumes "optimizeImage env inputPath outputDir = (t, Inr files)"
    and "toLowerCase (path_extname env inputPath) \<in> set SUPPORTED_IMAGE_FORMATS"
    and "toLowerCase (path_extname env inputPath) \<noteq> ''.svg''"
  shows "\<exists>t1 t2. t = t1 @ t2 \<and>
           optimizeImage_raster env inputPath outputDir (toLowerCase (path_extname env inputPath))
             (path_basename env inputPath (Some (toLowerCase (path_extname env inputPath))))
             (path_relative env (SOURCE_DIR env) inputPath) = (t2, Inr files)"
  using assms
  by (auto simp: optimizeImage_def Let_def try_catch_Inr_iff await_Inr_iff throw_def)

text \<open>
  C4. For a \<open>.jpg\<close>, \<open>.jpeg\<close> or \<open>.png\<close> source that \<open>optimizeImage\<close> transforms
  successfully, the \<open>.webp\<close> rendition written is the result of the pipeline resized to
  \<open>min(metadata.width, MAX_IMAGE_WIDTH)\<close> with \<open>fit: 'inside'\<close> and
  \<open>withoutEnlargement: true\<close>; so, sharp keeping a resized image inside the requested
  width, its width is at most the minimum of the natural width and the configured
  maximum, and in particular at most the natural width.
\<close>

theorem webp_width_clamped:
  assumes "optimizeImage env inputPath outputDir = (t, Inr files)"
    and "toLowerCase (path_extname env inputPath) \<in> {''.jpg'', ''.jpeg'', ''.png''}"
    and "sharp_metadata env inputPath = Inr metadata"
    and "fits_inside env width_of"
  shows "\<exists>webpBuffer.
           sharp_toBuffer env inputPath (min (width metadata) MAX_IMAGE_WIDTH) RESIZE_OPTIONS
             (Webp IMAGE_QUALITY_webp) = Inr webpBuffer \<and>
           Wrote (path_join env outputDir
                    (path_basename env inputPath (Some (toLowerCase (path_extname env inputPath)))
                       @ ''.webp'')) webpBuffer \<in> set t \<and>
           width_of webpBuffer \<le> min (width metadata) MAX_IMAGE_WIDTH \<and>
           width_of webpBuffer \<le> width metadata"
proof -
  from assms(2) have "toLowerCase (path_extname env inputPath) \<in> set SUPPORTED_IMAGE_FORMATS"
    and "toLowerCase (path_extname env inputPath) \<noteq> ''.svg''"
    by (auto simp: SUPPORTED_IMAGE_FORMATS_def)
  from optimizeImage_supported_raster [OF assms(1) this]
  obtain t1 t2 where t: "t = t1 @ t2"
    and raster: "optimizeImage_raster env inputPath outputDir
                   (toLowerCase (path_extname env inputPath))
                   (path_basename env inputPath (Some (toLowerCase (path_extname env inputPath))))
                   (path_relative env (SOURCE_DIR env) inputPath) = (t2, Inr files)"
    by blast
  from optimizeImage_raster_webp [OF raster] assms(3)
  obtain webpBuffer where
    buf: "sharp_toBuffer env inputPath (min (width metadata) MAX_IMAGE_WIDTH) RESIZE_OPTIONS
            (Webp IMAGE_QUALITY_webp) = Inr webpBuffer"
    and wrote: "Wrote (path_join env outputDir
                  (path_basename env inputPath (Some (toLowerCase (path_extname env inputPath)))
                     @ ''.webp'')) webpBuffer \<in> set t2"
    by auto
  have "fit RESIZE_OPTIONS = ''inside''"
    by (simp add: RESIZE_OPTIONS_def)
  with assms(4) buf have "width_of webpBuffer \<le> min (width metadata) MAX_IMAGE_WIDTH"
    unfolding fits_inside_def by blast
  with buf wrote t show ?thesis
    by auto
qed

theorem webp_width_clamped_witness:
  "fits_inside hero_site length \<and>
   sharp_metadata hero_site ''/site/img/hero.jpg'' = Inr \<lparr>width = 30\<rparr> \<and>
   Wrote ''/site/dist/img/hero.webp'' (replicate 30 CHR ''x'')
     \<in> set (fst (optimizeImage hero_site ''/site/img/hero.jpg'' ''/site/dist/img'')) \<and>
   length (replicate 30 CHR ''x'') \<le> min 30 MAX_IMAGE_WIDTH"
proof -
  have c: "fits_inside hero_site length"
    by (simp add: fits_inside_def hero_site_def site_def)
  have m: "sharp_metadata hero_site ''/site/img/hero.jpg'' = Inr \<lparr>width = 30\<rparr>"
    by code_simp
  have e: "toLowerCase (path_extname hero_site ''/site/img/hero.jpg'') \<in> {''.jpg'', ''.jpeg'', ''.png''}"
    by code_simp
  have "snd (optimizeImage hero_site ''/site/img/hero.jpg'' ''/site/dist/img'') =
          Inr [\<lparr>apath = ''/site/dist/img/hero.webp'', asize = 30, format = ''webp''\<rparr>,
               \<lparr>apath = ''/site/dist/img/hero.jpg'', asize = 30, format = ''jpeg''\<rparr>]"
    by code_simp
  then have run: "optimizeImage hero_site ''/site/img/hero.jpg'' ''/site/dist/img'' =
      (fst (optimizeImage hero_site ''/site/img/hero.jpg'' ''/site/dist/img''),
       Inr [\<lparr>apath = ''/site/dist/img/hero.webp'', asize = 30, format = ''webp''\<rparr>,
            \<lparr>apath = ''/site/dist/img/hero.jpg'', asize = 30, format = ''jpeg''\<rparr>])"
    by (simp add: prod_eq_iff)
  have b: "sharp_toBuffer hero_site ''/site/img/hero.jpg'' (min 30 MAX_IMAGE_WIDTH) RESIZE_OPTIONS
             (Webp IMAGE_QUALITY_webp) = Inr (replicate 30 CHR ''x'')"
    by (simp add: hero_site_def site_def MAX_IMAGE_WIDTH_def)
  have n: "path_join hero_site ''/site/dist/img''
             (path_basename hero_site ''/site/img/hero.jpg''
                (Some (toLowerCase (path_extname hero_site ''/site/img/hero.jpg''))) @ ''.webp'')
           = ''/site/dist/img/hero.webp''"
    by code_simp
  from webp_width_clamped [OF run e m c] b n run c m show ?thesis
    by auto
qed

section \<open>What the minifier and the SVG optimizer are asked to do\<close>

lemma optimizeJS_success:
  assumes "optimizeJS env inputPath outputPath = (t, Inr a)"
  shows "\<exists>source result minified.
           fs_readFile env inputPath = Inr source \<and>
           terserMinify env source (TERSER_OPTIONS (path_basename env outputPath None)) = Inr result \<and>
           code result = Some minified \<and> minified \<noteq> [] \<and> Wrote outputPath minified \<in> set t"
  using assms
  by (auto simp: optimizeJS_def Let_def try_catch_Inr_iff await_Inr_iff throw_def call_def
        writeFile_Inr_iff no_code_def split: if_splits option.splits)

text \<open>
  C7. For a script that \<open>optimizeJS\<close> transforms successfully, the file written is the
  code that terser returns for the source under options with \<open>drop_debugger: true\<close> and
  \<open>drop_console: false\<close>; so, terser honouring these options on the source, the output
  has no debugger statement and the console calls of the source.
\<close>

theorem minified_drops_debugger_keeps_console:
  assumes "optimizeJS env inputPath outputPath = (t, Inr a)"
    and "fs_readFile env inputPath = Inr source"
    and "honours_compress debugger_statements console_calls env source"
  shows "\<exists>result minified.
           terserMinify env source (TERSER_OPTIONS (path_basename env outputPath None)) = Inr result \<and>
           drop_debugger (compress (TERSER_OPTIONS (path_basename env outputPath None))) \<and>
           \<not> drop_console (compress (TERSER_OPTIONS (path_basename env outputPath None))) \<and>
           code result = Some minified \<and> Wrote outputPath minified \<in> set t \<and>
           debugger_statements minified = 0 \<and> console_calls minified = console_calls source"
proof -
  from optimizeJS_success [OF assms(1)] assms(2)
  obtain result minified where
    r: "terserMinify env source (TERSER_OPTIONS (path_basename env outputPath None)) = Inr result"
      "code result = Some minified" "Wrote outputPath minified \<in> set t"
    by auto
  have o: "drop_debugger (compress (TERSER_OPTIONS (path_basename env outputPath None)))"
    "\<not> drop_console (compress (TERSER_OPTIONS (path_basename env outputPath None)))"
    by (simp_all add: TERSER_OPTIONS_def)
  with assms(3) r(1,2) have
    "debugger_statements minified = 0 \<and> console_calls minified = console_calls source"
    unfolding honours_compress_def by blast
  with r o show ?thesis
    by blast
qed

theorem minified_drops_debugger_keeps_console_witness:
  "fs_readFile app_site ''/site/js/app.js'' = Inr app_source \<and>
   honours_compress (occurrences ''debugger'') (occurrences ''console.'') app_site app_source \<and>
   occurrences ''debugger'' app_source = 1 \<and> occurrences ''console.'' app_source = 1 \<and>
   (\<exists>minified.
      Wrote ''/site/dist/js/app.js'' minified
        \<in> set (fst (optimizeJS app_site ''/site/js/app.js'' ''/site/dist/js/app.js'')) \<and>
      occurrences ''debugger'' minified = 0 \<and> occurrences ''console.'' minified = 1)"
proof -
  have s: "fs_readFile app_site ''/site/js/app.js'' = Inr app_source"
    by code_simp
  have f: "starts_with app_source ''debugger;''"
    "occurrences ''debugger'' (drop 9 app_source) = 0"
    "occurrences ''console.'' (drop 9 app_source) = occurrences ''console.'' app_source"
    "occurrences ''debugger'' app_source = 1" "occurrences ''console.'' app_source = 1"
    by code_simp+
  have c: "honours_compress (occurrences ''debugger'') (occurrences ''console.'') app_site app_source"
    unfolding honours_compress_def app_site_def site_def minify_model_def
    using f by auto
  have "snd (optimizeJS app_site ''/site/js/app.js'' ''/site/dist/js/app.js'') =
          Inr \<lparr>apath = ''/site/dist/js/app.js'', asize = 14\<rparr>"
    by code_simp
  then have run: "optimizeJS app_site ''/site/js/app.js'' ''/site/dist/js/app.js'' =
      (fst (optimizeJS app_site ''/site/js/app.js'' ''/site/dist/js/app.js''),
       Inr \<lparr>apath = ''/site/dist/js/app.js'', asize = 14\<rparr>)"
    by (simp add: prod_eq_iff)
  from minified_drops_debugger_keeps_console [OF run s c] s c f show ?thesis
    by auto
qed

lemma optimizeImage_svg_success:
  assumes "optimizeImage_svg env inputPath outputDir basename relativePath = (t, Inr files)"
  shows "\<exists>svgBuffer optimized.
           fs_readFile env inputPath = Inr svgBuffer \<and>
           imagemin_buffer env svgBuffer (Svgo SVGO_PLUGINS) = Inr optimized \<and>
           Wrote (path_join env outputDir (basename @ ''.svg'')) optimized \<in> set t \<and>
           files = [\<lparr>apath = path_join env outputDir (basename @ ''.svg''),
                     asize = length optimized, format = ''svg''\<rparr>]"
  using assms
  by (auto simp: optimizeImage_svg_def await_Inr_iff Let_def call_def writeFile_Inr_iff return_def)

lemma optimizeImage_supported_svg:
  assumes "optimizeImage env inputPath outputDir = (t, Inr files)"
    and "toLowerCase (path_extname env inputPath) = ''.svg''"
  shows "\<exists>t1 t2. t = t1 @ t2 \<and>
           optimizeImage_svg env inputPath outputDir
             (path_basename env inputPath (Some ''.svg''))
             (path_relative env (SOURCE_DIR env) inputPath) = (t2, Inr files)"
  using assms
  by (auto simp: optimizeImage_def Let_def try_catch_Inr_iff await_Inr_iff throw_def
        SUPPORTED_IMAGE_FORMATS_def)

text \<open>
  C9. For an \<open>.svg\<close> source that \<open>optimizeImage\<close> transforms successfully, the file
  written is what imagemin returns for the source under the svgo plugin list in which
  \<open>removeViewBox\<close> is switched off; so, svgo honouring the switch on the source, the
  \<open>viewBox\<close> of the output is that of the source.
\<close>

theorem svg_viewBox_preserved:
  assumes "optimizeImage env inputPath outputDir = (t, Inr files)"
    and "toLowerCase (path_extname env inputPath) = ''.svg''"
    and "fs_readFile env inputPath = Inr svgBuffer"
    and "honours_svgo viewBox env svgBuffer"
  shows "\<exists>optimized.
           imagemin_buffer env svgBuffer (Svgo SVGO_PLUGINS) = Inr optimized \<and>
           (''removeViewBox'', False) \<in> set SVGO_PLUGINS \<and>
           Wrote (path_join env outputDir (path_basename env inputPath (Some ''.svg'') @ ''.svg''))
             optimized \<in> set t \<and>
           viewBox optimized = viewBox svgBuffer"
proof -
  from optimizeImage_supported_svg [OF assms(1,2)]
  obtain t1 t2 where t: "t = t1 @ t2"
    and svg: "optimizeImage_svg env inputPath outputDir
                (path_basename env inputPath (Some ''.svg''))
                (path_relative env (SOURCE_DIR env) inputPath) = (t2, Inr files)"
    by blast
  from optimizeImage_svg_success [OF svg] assms(3)
  obtain optimized where
    o: "imagemin_buffer env svgBuffer (Svgo SVGO_PLUGINS) = Inr optimized"
      "Wrote (path_join env outputDir (path_basename env inputPath (Some ''.svg'') @ ''.svg''))
         optimized \<in> set t2"
    by auto
  have p: "(''removeViewBox'', False) \<in> set SVGO_PLUGINS"
    "(''removeViewBox'', True) \<notin> set SVGO_PLUGINS"
    by (simp_all add: SVGO_PLUGINS_def)
  with assms(4) o(1) have "viewBox optimized = viewBox svgBuffer"
    unfolding honours_svgo_def by blast
  with o p t show ?thesis
    by auto
qed

theorem svg_viewBox_preserved_witness:
  "toLowerCase (path_extname logo_site ''/site/logo.svg'') = ''.svg'' \<and>
   fs_readFile logo_site ''/site/logo.svg'' = Inr logo_source \<and>
   honours_svgo viewBox_model logo_site logo_source \<and>
   viewBox_model logo_source = Some ''0 0 24 24'' \<and>
   (\<exists>optimized.
      Wrote ''/site/dist/logo.svg'' optimized
        \<in> set (fst (optimizeImage logo_site ''/site/logo.svg'' ''/site/dist'')) \<and>
      viewBox_model optimized = Some ''0 0 24 24'')"
proof -
  have e: "toLowerCase (path_extname logo_site ''/site/logo.svg'') = ''.svg''"
    by code_simp
  have s: "fs_readFile logo_site ''/site/logo.svg'' = Inr logo_source"
    by code_simp
  have c: "honours_svgo viewBox_model logo_site logo_source"
    by (simp add: honours_svgo_def logo_site_def site_def)
  have v: "viewBox_model logo_source = Some ''0 0 24 24''"
    by code_simp
  have n: "path_join logo_site ''/site/dist''
             (path_basename logo_site ''/site/logo.svg'' (Some ''.svg'') @ ''.svg'') =
           ''/site/dist/logo.svg''"
    by code_simp
  have "snd (optimizeImage logo_site ''/site/logo.svg'' ''/site/dist'') =
          Inr [\<lparr>apath = ''/site/dist/logo.svg'', asize = 38, format = ''svg''\<rparr>]"
    by code_simp
  then have run: "optimizeImage logo_site ''/site/logo.svg'' ''/site/dist'' =
      (fst (optimizeImage logo_site ''/site/logo.svg'' ''/site/dist''),
       Inr [\<lparr>apath = ''/site/dist/logo.svg'', asize = 38, format = ''svg''\<rparr>])"
    by (simp add: prod_eq_iff)
  from svg_viewBox_preserved [OF run e s c] e s c v n show ?thesis
    by auto
qed

section \<open>A script without output\<close>

lemma try_catch_Inl_iff:
  "try_catch m h = (t, Inl e') \<longleftrightarrow>
     (\<exists>t1 e t2. m = (t1, Inl e) \<and> h e = (t2, Inl e') \<and> t = t1 @ t2)"
  by (cases m) (auto simp: try_catch_def split: sum.splits prod.splits)

lemma optimizeJS_throws:
  "snd (optimizeJS env inputPath outputPath) = Inl e \<Longrightarrow>
   \<exists>original. e = js_error env inputPath outputPath original"
  by (auto simp: optimizeJS_def Let_def snd_try_catch_Inl throw_def js_error_def)

lemma optimizeJS_no_output:
  assumes "fs_readFile env inputPath = Inr source"
    and "terserMinify env source (TERSER_OPTIONS (path_basename env outputPath None)) = Inr result"
    and "no_code result"
  shows "optimizeJS env inputPath outputPath =
           ([], Inl (js_error env inputPath outputPath (Error ''Minification produced no output'')))"
  using assms
  by (simp add: optimizeJS_def Let_def try_catch_def await_def call_def throw_def js_error_def)

text \<open>
  C8. When terser resolves without code (\<open>!result.code\<close>) for a discovered script,
  \<open>optimizeJS\<close> throws for that file the error in which it wraps every error it throws,
  an \<open>OptimizationError\<close> with the message \<open>Failed to optimize JavaScript: <path>\<close>,
  here with the cause \<open>Minification produced no output\<close>; the discovered paths being
  pairwise distinct, \<open>results.errors\<close> holds exactly one error record for the file, and
  every discovered file of every kind is attempted.
\<close>

theorem no_output_is_error:
  assumes "fs_readFile env jsPath = Inr source"
    and "terserMinify env source
           (TERSER_OPTIONS (path_basename env (outputPath_of env jsPath) None)) = Inr result"
    and "no_code result"
    and "distinct (map snd (discovered env))"
    and "jsPath \<in> set (jsFiles env)"
  shows "optimizeJS env jsPath (outputPath_of env jsPath) =
           ([], Inl (js_error env jsPath (outputPath_of env jsPath)
                       (Error ''Minification produced no output''))) \<and>
         (\<forall>q out e. snd (optimizeJS env q out) = Inl e \<longrightarrow> (\<exists>original. e = js_error env q out original)) \<and>
         errors_for env jsPath =
           [\<lparr>err_type = ''js'', err_path = jsPath,
             err_error = ''Failed to optimize JavaScript: '' @
                         path_relative env (SOURCE_DIR env) jsPath\<rparr>] \<and>
         (\<forall>(k, q) \<in> set (discovered env). attempted env k q)"
proof -
  note thrown = optimizeJS_no_output [OF assms(1-3)]
  then have "failure env ''js'' jsPath =
      Some (js_error env jsPath (outputPath_of env jsPath) (Error ''Minification produced no output''))"
    by (simp add: failure_def js_result_def)
  moreover from assms(5) have "(''js'', jsPath) \<in> set (discovered env)"
    by (simp add: discovered_cases)
  ultimately have "errors_for env jsPath =
      [\<lparr>err_type = ''js'', err_path = jsPath,
        err_error = ''Failed to optimize JavaScript: '' @
                    path_relative env (SOURCE_DIR env) jsPath\<rparr>]"
    using assms(4) by (simp add: errors_for_discovered error_of_def js_error_def)
  with thrown show ?thesis
    by (auto simp: attempted_discovered dest: optimizeJS_throws)
qed

theorem no_output_is_error_witness:
  "fs_readFile empty_js_site ''/site/js/empty.js'' = Inr [] \<and>
   terserMinify empty_js_site []
     (TERSER_OPTIONS
        (path_basename empty_js_site (outputPath_of empty_js_site ''/site/js/empty.js'') None)) =
     Inr \<lparr>code = Some [], code_map = Some ''{}''\<rparr> \<and>
   no_code \<lparr>code = Some [], code_map = Some ''{}''\<rparr> \<and>
   distinct (map snd (discovered empty_js_site)) \<and>
   ''/site/js/empty.js'' \<in> set (jsFiles empty_js_site) \<and>
   errors_for empty_js_site ''/site/js/empty.js'' =
     [\<lparr>err_type = ''js'', err_path = ''/site/js/empty.js'',
       err_error = ''Failed to optimize JavaScript: js/empty.js''\<rparr>] \<and>
   attempted empty_js_site ''html'' ''/site/index.html''"
proof -
  have s: "fs_readFile empty_js_site ''/site/js/empty.js'' = Inr []"
    by code_simp
  have m: "terserMinify empty_js_site []
     (TERSER_OPTIONS
        (path_basename empty_js_site (outputPath_of empty_js_site ''/site/js/empty.js'') None)) =
     Inr \<lparr>code = Some [], code_map = Some ''{}''\<rparr>"
    by code_simp
  have n: "no_code \<lparr>code = Some [], code_map = Some ''{}''\<rparr>"
    by (simp add: no_code_def)
  have d: "distinct (map snd (discovered empty_js_site))"
    by code_simp
  have j: "''/site/js/empty.js'' \<in> set (jsFiles empty_js_site)"
    by code_simp
  have h: "(''html'', ''/site/index.html'') \<in> set (discovered empty_js_site)"
    by code_simp
  have r: "path_relative empty_js_site (SOURCE_DIR empty_js_site) ''/site/js/empty.js'' =
           ''js/empty.js''"
    by code_simp
  from no_output_is_error [OF s m n d j] h r s m n d j show ?thesis
    by auto
qed

section \<open>Files that discovery does not look for\<close>

lemma matches_extension: "matches (''**/*'' @ ext) p \<longleftrightarrow> ends_with p ext"
  by (simp add: matches_def starts_with_def)

lemma glob_model_member:
  "q \<in> set (glob_model cwd tree patterns ignore) \<longleftrightarrow>
     (\<exists>p \<in> set tree. q = cwd @ ''/'' @ p \<and> (\<exists>pattern \<in> set patterns. matches pattern p) \<and>
        \<not> (\<exists>pattern \<in> set ignore. excluded pattern p))"
  by (auto simp: glob_model_def list_ex_iff)

lemma glob_model_skip:
  "\<not> (\<exists>pattern \<in> set patterns. matches pattern p) \<Longrightarrow>
   glob_model cwd (before @ p # after) patterns ignore = glob_model cwd (before @ after) patterns ignore"
  by (simp add: glob_model_def list_ex_iff)

lemma glob_model_distinct: "distinct (glob_model cwd tree patterns ignore)"
  by (simp add: glob_model_def distinct_map inj_on_def)

lemma ensureDirectory_glob [simp]: "ensureDirectory (env\<lparr>glob := g\<rparr>) = ensureDirectory env"
  by (rule ext) (simp add: ensureDirectory_def cong: sum.case_cong)

lemma writeFile_glob [simp]: "writeFile (env\<lparr>glob := g\<rparr>) = writeFile env"
  by (rule ext)+ (simp add: writeFile_def)

lemma fs_copy_glob [simp]: "fs_copy (env\<lparr>glob := g\<rparr>) = fs_copy env"
  by (rule ext)+ (simp add: fs_copy_def)

lemma optimizeImage_svg_glob [simp]:
  "optimizeImage_svg (env\<lparr>glob := g\<rparr>) = optimizeImage_svg env"
  by (rule ext)+ (simp add: optimizeImage_svg_def Let_def)

lemma optimizeImage_second_glob [simp]:
  "optimizeImage_second (env\<lparr>glob := g\<rparr>) = optimizeImage_second env"
  by (rule ext)+ (simp add: optimizeImage_second_def Let_def)

lemma optimizeImage_raster_glob [simp]:
  "optimizeImage_raster (env\<lparr>glob := g\<rparr>) = optimizeImage_raster env"
  by (rule ext)+ (simp add: optimizeImage_raster_def Let_def)

lemma optimizeImage_glob [simp]: "optimizeImage (env\<lparr>glob := g\<rparr>) = optimizeImage env"
  by (rule ext)+ (simp add: optimizeImage_def Let_def)

lemma optimizeCSS_glob [simp]: "optimizeCSS (env\<lparr>glob := g\<rparr>) = optimizeCSS env"
  by (rule ext)+ (simp add: optimizeCSS_def Let_def cong: option.case_cong)

lemma optimizeJS_glob [simp]: "optimizeJS (env\<lparr>glob := g\<rparr>) = optimizeJS env"
  by (rule ext)+ (simp add: optimizeJS_def Let_def cong: option.case_cong if_cong)

lemma copyFile_glob [simp]: "copyFile (env\<lparr>glob := g\<rparr>) = copyFile env"
  by (rule ext)+ (simp add: copyFile_def)

lemma steps_glob [simp]:
  "image_step (env\<lparr>glob := g\<rparr>) = image_step env"
  "css_step (env\<lparr>glob := g\<rparr>) = css_step env"
  "js_step (env\<lparr>glob := g\<rparr>) = js_step env"
  "html_step (env\<lparr>glob := g\<rparr>) = html_step env"
  by ((rule ext)+,
      simp add: image_step_def css_step_def js_step_def html_step_def image_outputDir_def
        outputPath_of_def cong: prod.case_cong sum.case_cong)+

lemma prepare_glob [simp]: "prepare (env\<lparr>glob := g\<rparr>) = prepare env"
  by (rule ext) (simp add: prepare_def Let_def cong: prod.case_cong sum.case_cong)

lemma discover_glob:
  "discover (env\<lparr>glob := g\<rparr>) patterns ignore msg body =
     (\<lambda>results. case g patterns ignore of
        Inl e \<Rightarrow> ([], results, Some e)
      | Inr files \<Rightarrow>
          (case for_each body files results of
             (t, results') \<Rightarrow>
               (Logged INFO msg [(''count'', Num (length files))] # t, results', None)))"
  by (rule ext) (simp add: discover_def)

lemma processAssets_glob:
  assumes "g imagePatterns IGNORE = g' imagePatterns IGNORE"
    and "g [''**/*.css''] IGNORE = g' [''**/*.css''] IGNORE"
    and "g [''**/*.js''] IGNORE_JS = g' [''**/*.js''] IGNORE_JS"
    and "g [''**/*.html''] IGNORE = g' [''**/*.html''] IGNORE"
  shows "processAssets (env\<lparr>glob := g\<rparr>) = processAssets (env\<lparr>glob := g'\<rparr>)"
  by (simp add: processAssets_def discover_glob assms)

lemma undiscoverable:
  assumes "\<forall>ext \<in> set DISCOVERY_EXTENSIONS. \<not> ends_with p ext"
  shows "\<not> (\<exists>pattern \<in> set imagePatterns. matches pattern p)"
    "\<not> (\<exists>pattern \<in> set [''**/*.css'']. matches pattern p)"
    "\<not> (\<exists>pattern \<in> set [''**/*.js'']. matches pattern p)"
    "\<not> (\<exists>pattern \<in> set [''**/*.html'']. matches pattern p)"
  using assms
  by (simp_all add: imagePatterns_def SUPPORTED_IMAGE_FORMATS_def DISCOVERY_EXTENSIONS_def
        matches_def starts_with_def)

lemma discovered_with_tree:
  assumes "(kind, q) \<in> set (discovered (with_tree env tree))"
  shows "\<exists>p \<in> set tree. q = SOURCE_DIR env @ ''/'' @ p \<and>
           (\<exists>pattern \<in> set (imagePatterns @ [''**/*.css'', ''**/*.js'', ''**/*.html'']).
              matches pattern p)"
  using assms
  by (auto simp: discovered_cases found_defs with_tree_def glob_model_member
      split: sum.splits)

lemma no_errors_undiscovered:
  "p \<notin> snd ` set kps \<Longrightarrow> filter (\<lambda>r. err_path r = p) (concat (map (error_of env) kps)) = []"
  by (induction kps) (auto simp: error_of_def split: option.splits)

text \<open>
  C5, as the code has it. A file of the tree whose name ends with none of the extensions
  that discovery looks for is not discovered: there is no error record for it, and the
  run (its events, its results, its exit status) is the run on the tree without the
  file, so the file causes no log line, no asset record and no change of the exit
  status. The warning belongs to \<open>optimizeImage\<close>: handed a path with an unsupported
  extension, it logs the warning and returns no record and no error.
\<close>

theorem unsupported_extension_not_discovered:
  assumes "\<forall>ext \<in> set DISCOVERY_EXTENSIONS. \<not> ends_with p ext"
  shows "SOURCE_DIR env @ ''/'' @ p \<notin> snd ` set (discovered (with_tree env (before @ p # after))) \<and>
         errors_for (with_tree env (before @ p # after)) (SOURCE_DIR env @ ''/'' @ p) = [] \<and>
         processAssets (with_tree env (before @ p # after)) =
           processAssets (with_tree env (before @ after)) \<and>
         main (with_tree env (before @ p # after)) = main (with_tree env (before @ after)) \<and>
         (\<forall>q d. toLowerCase (path_extname env q) \<notin> set SUPPORTED_IMAGE_FORMATS \<longrightarrow>
                optimizeImage env q d = ([unsupported_warning env q], Inr []))"
proof -
  let ?tree = "before @ p # after"
  note un = undiscoverable [OF assms]
  have absent: "SOURCE_DIR env @ ''/'' @ p \<notin> snd ` set (discovered (with_tree env ?tree))"
  proof
    assume "SOURCE_DIR env @ ''/'' @ p \<in> snd ` set (discovered (with_tree env ?tree))"
    then obtain kind where "(kind, SOURCE_DIR env @ ''/'' @ p) \<in> set (discovered (with_tree env ?tree))"
      by auto
    from discovered_with_tree [OF this] have
      "\<exists>pattern \<in> set (imagePatterns @ [''**/*.css'', ''**/*.js'', ''**/*.html'']). matches pattern p"
      by auto
    with un show False
      by auto
  qed
  then have none: "errors_for (with_tree env ?tree) (SOURCE_DIR env @ ''/'' @ p) = []"
    by (simp add: errors_for_def processAssets_results no_errors_undiscovered)
  have same: "processAssets (with_tree env ?tree) = processAssets (with_tree env (before @ after))"
    unfolding with_tree_def
    by (rule processAssets_glob) (simp_all add: glob_model_skip [OF un(1)] glob_model_skip [OF un(2)]
          glob_model_skip [OF un(3)] glob_model_skip [OF un(4)])
  then have "main (with_tree env ?tree) = main (with_tree env (before @ after))"
    by (simp add: main_def)
  with absent none same show ?thesis
    by (simp add: optimizeImage_unsupported unsupported_warning_def)
qed

theorem unsupported_extension_not_discovered_witness:
  "filter (ends_with ''img/old.bmp'') DISCOVERY_EXTENSIONS = [] \<and>
   main (with_tree bmp_site [''img/old.bmp'', ''index.html'']) =
     main (with_tree bmp_site [''index.html'']) \<and>
   errors_for (with_tree bmp_site [''img/old.bmp'', ''index.html''])
     (SOURCE_DIR bmp_site @ ''/'' @ ''img/old.bmp'') = []"
proof -
  have h: "\<forall>ext \<in> set DISCOVERY_EXTENSIONS. \<not> ends_with ''img/old.bmp'' ext"
    by code_simp
  have f: "filter (ends_with ''img/old.bmp'') DISCOVERY_EXTENSIONS = []"
    by code_simp
  from unsupported_extension_not_discovered [OF h, of bmp_site "[]" "[''index.html'']"] f
  show ?thesis
    by simp
qed

text \<open>
  C5 as stated fails: on a tree that holds \<open>img/old.bmp\<close>, whose extension is not
  supported, the run logs no warning at all.
\<close>

theorem unsupported_warning_counterexample:
  "fs_readFile bmp_site ''/site/img/old.bmp'' = Inr ''BM'' \<and>
   toLowerCase (path_extname bmp_site ''/site/img/old.bmp'') = ''.bmp'' \<and>
   ''.bmp'' \<notin> set SUPPORTED_IMAGE_FORMATS \<and>
   filter is_warning (fst (main bmp_site)) = []"
  by code_simp

section \<open>WebP sources\<close>

lemma optimizeImage_second_other:
  "ext \<noteq> ''.jpg'' \<Longrightarrow> ext \<noteq> ''.jpeg'' \<Longrightarrow> ext \<noteq> ''.png'' \<Longrightarrow>
   optimizeImage_second env inputPath outputDir ext basename targetWidth files = ([], Inr files)"
  by (simp add: optimizeImage_second_def return_def)

lemma optimizeImage_raster_single:
  assumes "optimizeImage_raster env inputPath outputDir ext basename relativePath = (t, Inr files)"
    and "ext \<noteq> ''.jpg''" "ext \<noteq> ''.jpeg''" "ext \<noteq> ''.png''"
  shows "\<exists>metadata webpBuffer.
           sharp_metadata env inputPath = Inr metadata \<and>
           sharp_toBuffer env inputPath (min (width metadata) MAX_IMAGE_WIDTH) RESIZE_OPTIONS
             (Webp IMAGE_QUALITY_webp) = Inr webpBuffer \<and>
           Wrote (path_join env outputDir (basename @ ''.webp'')) webpBuffer \<in> set t \<and>
           files = [\<lparr>apath = path_join env outputDir (basename @ ''.webp''),
                     asize = length webpBuffer, format = ''webp''\<rparr>]"
  using assms
  by (auto simp: optimizeImage_raster_def await_Inr_iff Let_def call_def writeFile_Inr_iff
        return_def optimizeImage_second_other)

lemma imageFiles_with_tree:
  "snd (ensureDirectory env (BUILD_DIR env)) = Inr u \<Longrightarrow>
   imageFiles (with_tree env tree) = glob_model (SOURCE_DIR env) tree imagePatterns IGNORE"
  by (simp add: imageFiles_def found_def with_tree_def)

lemma optimizeImage_webp:
  assumes "toLowerCase (path_extname env inputPath) = ''.webp''"
    and "optimizeImage env inputPath outputDir = (t, Inr files)"
  shows "\<exists>metadata webpBuffer.
         sharp_metadata env inputPath = Inr metadata \<and>
         sharp_toBuffer env inputPath (min (width metadata) MAX_IMAGE_WIDTH) RESIZE_OPTIONS
           (Webp IMAGE_QUALITY_webp) = Inr webpBuffer \<and>
         Wrote (path_join env outputDir (path_basename env inputPath (Some ''.webp'') @ ''.webp''))
           webpBuffer \<in> set t \<and>
         files = [\<lparr>apath = path_join env outputDir
                              (path_basename env inputPath (Some ''.webp'') @ ''.webp''),
                   asize = length webpBuffer, format = ''webp''\<rparr>]"
proof -
  from assms(1) have "toLowerCase (path_extname env inputPath) \<in> set SUPPORTED_IMAGE_FORMATS"
    "toLowerCase (path_extname env inputPath) \<noteq> ''.svg''"
    by (simp_all add: SUPPORTED_IMAGE_FORMATS_def)
  from optimizeImage_supported_raster [OF assms(2) this] assms(1)
  obtain t1 t2 where t: "t = t1 @ t2"
    and raster: "optimizeImage_raster env inputPath outputDir ''.webp''
                   (path_basename env inputPath (Some ''.webp''))
                   (path_relative env (SOURCE_DIR env) inputPath) = (t2, Inr files)"
    by auto
  from optimizeImage_raster_single [OF raster] t show ?thesis
    by auto
qed

text \<open>
  C10. \<open>**/*.webp\<close> is one of the image patterns, so a \<open>.webp\<close> file of the tree
  outside the ignored directories is among the image files of the run; and
  \<open>optimizeImage\<close>, when it succeeds on a \<open>.webp\<close> source, returns exactly one asset
  record, the \<open>.webp\<close> rendition resized to \<open>min(metadata.width, MAX_IMAGE_WIDTH)\<close> that it
  wrote, and no JPEG or PNG rendition.
\<close>

theorem webp_is_image_input:
  "''**/*.webp'' \<in> set imagePatterns \<and>
   (snd (ensureDirectory env (BUILD_DIR env)) = Inr () \<longrightarrow> p \<in> set tree \<longrightarrow>
    ends_with p ''.webp'' \<longrightarrow> \<not> (\<exists>pattern \<in> set IGNORE. excluded pattern p) \<longrightarrow>
      SOURCE_DIR env @ ''/'' @ p \<in> set (imageFiles (with_tree env tree))) \<and>
   (toLowerCase (path_extname env inputPath) = ''.webp'' \<longrightarrow>
    optimizeImage env inputPath outputDir = (t, Inr files) \<longrightarrow>
      (\<exists>metadata webpBuffer.
         sharp_metadata env inputPath = Inr metadata \<and>
         sharp_toBuffer env inputPath (min (width metadata) MAX_IMAGE_WIDTH) RESIZE_OPTIONS
           (Webp IMAGE_QUALITY_webp) = Inr webpBuffer \<and>
         Wrote (path_join env outputDir (path_basename env inputPath (Some ''.webp'') @ ''.webp''))
           webpBuffer \<in> set t \<and>
         files = [\<lparr>apath = path_join env outputDir
                              (path_basename env inputPath (Some ''.webp'') @ ''.webp''),
                   asize = length webpBuffer, format = ''webp''\<rparr>]))"
proof (intro conjI impI)
  show pattern: "''**/*.webp'' \<in> set imagePatterns"
    by (simp add: imagePatterns_def SUPPORTED_IMAGE_FORMATS_def)
  {
    assume ok: "snd (ensureDirectory env (BUILD_DIR env)) = Inr ()"
      and p: "p \<in> set tree" "ends_with p ''.webp''"
        "\<not> (\<exists>pattern \<in> set IGNORE. excluded pattern p)"
    from p(2) have "matches ''**/*.webp'' p"
      using matches_extension [of "''.webp''" p] by simp
    with pattern p show "SOURCE_DIR env @ ''/'' @ p \<in> set (imageFiles (with_tree env tree))"
      unfolding imageFiles_with_tree [OF ok] glob_model_member by blast
  }
  {
    assume "toLowerCase (path_extname env inputPath) = ''.webp''"
      and "optimizeImage env inputPath outputDir = (t, Inr files)"
    then show "\<exists>metadata webpBuffer.
         sharp_metadata env inputPath = Inr metadata \<and>
         sharp_toBuffer env inputPath (min (width metadata) MAX_IMAGE_WIDTH) RESIZE_OPTIONS
           (Webp IMAGE_QUALITY_webp) = Inr webpBuffer \<and>
         Wrote (path_join env outputDir (path_basename env inputPath (Some ''.webp'') @ ''.webp''))
           webpBuffer \<in> set t \<and>
         files = [\<lparr>apath = path_join env outputDir
                              (path_basename env inputPath (Some ''.webp'') @ ''.webp''),
                   asize = length webpBuffer, format = ''webp''\<rparr>]"
      by (rule optimizeImage_webp)
  }
qed

theorem webp_is_image_input_witness:
  "snd (ensureDirectory webp_site (BUILD_DIR webp_site)) = Inr () \<and>
   ends_with ''img/photo.webp'' ''.webp'' \<and>
   \<not> (\<exists>pattern \<in> set IGNORE. excluded pattern ''img/photo.webp'') \<and>
   toLowerCase (path_extname webp_site ''/site/img/photo.webp'') = ''.webp'' \<and>
   ''/site/img/photo.webp'' \<in> set (imageFiles (with_tree webp_site [''img/photo.webp''])) \<and>
   snd (optimizeImage webp_site ''/site/img/photo.webp'' ''/site/dist/img'') =
     Inr [\<lparr>apath = ''/site/dist/img/photo.webp'', asize = 30, format = ''webp''\<rparr>]"
proof -
  have ok: "snd (ensureDirectory webp_site (BUILD_DIR webp_site)) = Inr ()"
    by code_simp
  have e: "ends_with ''img/photo.webp'' ''.webp''"
    by code_simp
  have i: "\<not> (\<exists>pattern \<in> set IGNORE. excluded pattern ''img/photo.webp'')"
    by code_simp
  have x: "toLowerCase (path_extname webp_site ''/site/img/photo.webp'') = ''.webp''"
    by code_simp
  have s: "SOURCE_DIR webp_site = ''/site''"
    by code_simp
  have r: "snd (optimizeImage webp_site ''/site/img/photo.webp'' ''/site/dist/img'') =
     Inr [\<lparr>apath = ''/site/dist/img/photo.webp'', asize = 30, format = ''webp''\<rparr>]"
    by code_simp
  from webp_is_image_input [of webp_site "''img/photo.webp''" "[''img/photo.webp'']"
      "''/site/img/photo.webp''"] ok e i x s r
  show ?thesis
    by simp
qed

section \<open>Counting\<close>

lemma summary_count_eq:
  "summary_count r ''images'' = Some (length (images r))"
  "summary_count r ''css'' = Some (length (css r))"
  "summary_count r ''js'' = Some (length (js r))"
  "summary_count r ''html'' = Some (length (html r))"
  by (simp_all add: summary_count_def summary_def kind_summary_def)

lemma length_concat_record_of:
  "length (concat (map (\<lambda>p. record_of (f p)) files)) = length (filter (\<lambda>p. \<not> isl (f p)) files)"
  by (induction files) (auto simp: record_of_def split: sum.splits)

lemma length_filter_complement:
  "length (filter (\<lambda>x. \<not> P x) xs) = length xs - length (filter P xs)"
  using sum_length_filter_compl [of P xs] by simp

lemma failed_iff:
  "failed env ''image'' p \<longleftrightarrow> isl (image_result env p)"
  "failed env ''css'' p \<longleftrightarrow> isl (css_result env p)"
  "failed env ''js'' p \<longleftrightarrow> isl (js_result env p)"
  "failed env ''html'' p \<longleftrightarrow> isl (html_result env p)"
  by (auto simp: failed_def failure_def split: sum.splits)

lemma count_other:
  "length (css (run_results env)) = length (cssFiles env) - length (filter (failed env ''css'') (cssFiles env))"
  "length (js (run_results env)) = length (jsFiles env) - length (filter (failed env ''js'') (jsFiles env))"
  "length (html (run_results env)) =
     length (htmlFiles env) - length (filter (failed env ''html'') (htmlFiles env))"
  by (simp_all add: processAssets_results length_concat_record_of failed_iff [abs_def]
        length_filter_complement)

lemma count_images:
  "length (images (run_results env)) = sum_list (map (produced env ''image'') (imageFiles env))"
  by (simp add: processAssets_results length_concat produced_def [abs_def] comp_def)

lemma optimizeImage_second_two:
  assumes "optimizeImage_second env inputPath outputDir ext basename targetWidth files = (t, Inr out)"
    and "ext \<in> {''.jpg'', ''.jpeg'', ''.png''}"
  shows "length out = Suc (length files)"
  using assms
  by (auto simp: optimizeImage_second_def await_Inr_iff Let_def return_def split: if_splits)

lemma optimizeImage_raster_two:
  assumes "optimizeImage_raster env inputPath outputDir ext basename relativePath = (t, Inr out)"
    and "ext \<in> {''.jpg'', ''.jpeg'', ''.png''}"
  shows "length out = 2"
  using assms
  by (auto simp: optimizeImage_raster_def await_Inr_iff Let_def return_def
      dest!: optimizeImage_second_two)

lemma optimizeImage_renditions:
  assumes "optimizeImage env inputPath outputDir = (t, Inr files)"
  shows "length files = renditions (toLowerCase (path_extname env inputPath))"
proof -
  let ?ext = "toLowerCase (path_extname env inputPath)"
  consider "?ext \<notin> set SUPPORTED_IMAGE_FORMATS" | "?ext = ''.svg''" | "?ext = ''.webp''"
    | "?ext \<in> {''.jpg'', ''.jpeg'', ''.png''}"
    by (auto simp: SUPPORTED_IMAGE_FORMATS_def)
  then show ?thesis
  proof cases
    case 1
    with assms show ?thesis
      by (auto simp: optimizeImage_unsupported renditions_def SUPPORTED_IMAGE_FORMATS_def)
  next
    case 2
    from optimizeImage_supported_svg [OF assms 2] obtain t2 where
      "optimizeImage_svg env inputPath outputDir (path_basename env inputPath (Some ''.svg''))
         (path_relative env (SOURCE_DIR env) inputPath) = (t2, Inr files)"
      by blast
    from optimizeImage_svg_success [OF this] 2 show ?thesis
      by (auto simp: renditions_def)
  next
    case 3
    from optimizeImage_webp [OF 3 assms] 3 show ?thesis
      by (auto simp: renditions_def)
  next
    case 4
    then have "?ext \<in> set SUPPORTED_IMAGE_FORMATS" "?ext \<noteq> ''.svg''"
      by (auto simp: SUPPORTED_IMAGE_FORMATS_def)
    from optimizeImage_supported_raster [OF assms this] obtain t2 where
      "optimizeImage_raster env inputPath outputDir ?ext
         (path_basename env inputPath (Some ?ext))
         (path_relative env (SOURCE_DIR env) inputPath) = (t2, Inr files)"
      by blast
    from optimizeImage_raster_two [OF this 4] 4 show ?thesis
      by (auto simp: renditions_def)
  qed
qed

section \<open>The summary\<close>

lemma summary_logged:
  "fatal env = None \<Longrightarrow>
   Logged INFO ''Asset optimization completed'' (summary (run_results env)) \<in> set (run_events env)"
  by (cases "ensureDirectory env (BUILD_DIR env)")
     (simp add: run_events_def run_results_def processAssets_def and_then_def prepare_def
        discover_eqs report_def fatal_def split: sum.splits option.splits prod.splits)

lemma produced_image:
  "produced env ''image'' p =
     (if failed env ''image'' p then 0 else renditions (toLowerCase (path_extname env p)))"
proof (cases "optimizeImage env p (image_outputDir env p)")
  case (Pair t r)
  then show ?thesis
    by (cases r)
       (auto simp: produced_def image_records_def failed_iff image_result_def
          dest: optimizeImage_renditions)
qed

lemma files_of_discovered:
  "kind \<in> {''image'', ''css'', ''js'', ''html''} \<Longrightarrow> q \<in> set (files_of env kind) \<Longrightarrow>
   (kind, q) \<in> set (discovered env)"
  unfolding discovered_cases
  by (elim insertE emptyE; simp add: files_of_def)

lemma failed_file_exit:
  assumes "kind \<in> {''image'', ''css'', ''js'', ''html''}"
    and "q \<in> set (files_of env kind)" "failed env kind q"
  shows "snd (main env) \<noteq> 0"
proof -
  from assms(3) obtain e where "failure env kind q = Some e"
    by (auto simp: failed_def)
  then have "set (error_of env (kind, q)) \<noteq> {}"
    by (simp add: error_of_def)
  with error_of_recorded [OF files_of_discovered [OF assms(1,2)]]
  have "set (errors (run_results env)) \<noteq> {}"
    by (metis subset_empty)
  then show ?thesis
    by (simp add: main_exit)
qed

lemma count_other_kind:
  assumes "kind \<in> {''css'', ''js'', ''html''}"
  shows "summary_count (run_results env) (summary_key kind) =
           Some (length (files_of env kind) -
                 length (filter (failed env kind) (files_of env kind)))"
  using assms
  by (elim insertE emptyE; simp add: summary_key_def files_of_def summary_count_eq count_other)

section \<open>One failure among the files of a kind\<close>

text \<open>
  C6, as the code has it. When exactly one of the files of a kind fails, every file of
  the kind is attempted and the exit status is non-zero; the summary is logged when the
  run is not fatal. For stylesheets, scripts and HTML the summary's count for the kind is
  N - 1. For images the count is the number of asset records, that is, of files written:
  none for the failed file, and for each other file two for a \<open>.jpg\<close>, \<open>.jpeg\<close> or
  \<open>.png\<close> source, one for an \<open>.svg\<close> or \<open>.webp\<close> source, none for an unsupported
  extension.
\<close>

theorem one_failure_summary:
  assumes "kind \<in> {''image'', ''css'', ''js'', ''html''}"
    and "length (filter (failed env kind) (files_of env kind)) = 1"
  shows "(\<forall>q \<in> set (files_of env kind). attempted env kind q) \<and>
         snd (main env) \<noteq> 0 \<and>
         (fatal env = None \<longrightarrow>
            Logged INFO ''Asset optimization completed'' (summary (run_results env))
              \<in> set (run_events env)) \<and>
         (kind \<noteq> ''image'' \<longrightarrow>
            summary_count (run_results env) (summary_key kind) =
              Some (length (files_of env kind) - 1)) \<and>
         (kind = ''image'' \<longrightarrow>
            summary_count (run_results env) (summary_key kind) =
              Some (sum_list (map (produced env ''image'') (files_of env kind))) \<and>
            (\<forall>q \<in> set (files_of env kind).
               produced env ''image'' q =
                 (if failed env ''image'' q then 0
                  else renditions (toLowerCase (path_extname env q)))))"
proof (intro conjI impI ballI)
  from assms(2) have "filter (failed env kind) (files_of env kind) \<noteq> []"
    by (metis length_0_conv zero_neq_one)
  then obtain q where "q \<in> set (files_of env kind)" "failed env kind q"
    by (meson filter_False)
  then show "snd (main env) \<noteq> 0"
    by (rule failed_file_exit [OF assms(1)])
next
  fix q
  assume "q \<in> set (files_of env kind)"
  then show "attempted env kind q"
    by (intro attempted_discovered files_of_discovered assms(1))
next
  assume "fatal env = None"
  then show "Logged INFO ''Asset optimization completed'' (summary (run_results env))
      \<in> set (run_events env)"
    by (rule summary_logged)
next
  assume "kind \<noteq> ''image''"
  with assms(1) have "kind \<in> {''css'', ''js'', ''html''}"
    by blast
  from count_other_kind [OF this] assms(2)
  show "summary_count (run_results env) (summary_key kind) = Some (length (files_of env kind) - 1)"
    by simp
next
  assume "kind = ''image''"
  then show "summary_count (run_results env) (summary_key kind) =
      Some (sum_list (map (produced env ''image'') (files_of env kind)))"
    by (simp add: summary_key_def files_of_def summary_count_eq count_images)
next
  fix q
  show "produced env ''image'' q =
      (if failed env ''image'' q then 0 else renditions (toLowerCase (path_extname env q)))"
    by (rule produced_image)
qed

theorem one_failure_summary_witness:
  "length (filter (failed two_css_site ''css'') (files_of two_css_site ''css'')) = 1 \<and>
   length (files_of two_css_site ''css'') = 2 \<and>
   summary_count (run_results two_css_site) ''css'' = Some 1 \<and>
   snd (main two_css_site) \<noteq> 0"
proof -
  have k: "''css'' \<in> {''image'', ''css'', ''js'', ''html''}"
    by simp
  have f: "length (filter (failed two_css_site ''css'') (files_of two_css_site ''css'')) = 1"
    by code_simp
  have n: "length (files_of two_css_site ''css'') = 2"
    by code_simp
  from one_failure_summary [OF k f] f n show ?thesis
    by (simp add: summary_key_def)
qed

text \<open>
  C6 as stated fails for images: of two discovered photographs one fails, and the
  summary counts 2 images, not 1.
\<close>

theorem summary_count_counterexample:
  "length (files_of two_jpg_site ''image'') = 2 \<and>
   length (filter (failed two_jpg_site ''image'') (files_of two_jpg_site ''image'')) = 1 \<and>
   summary_count (run_results two_jpg_site) ''images'' = Some 2 \<and>
   length (images (run_results two_jpg_site)) \<noteq> length (files_of two_jpg_site ''image'') - 1"
  by code_simp

section \<open>The discovered paths are pairwise distinct\<close>

lemma ends_with_suffix: "ends_with s e \<longleftrightarrow> suffix e s"
proof
  assume "ends_with s e"
  then have "s = take (length s - length e) s @ e"
    by (metis append_take_drop_id ends_with_def)
  then show "suffix e s"
    by (metis suffixI)
next
  assume "suffix e s"
  then show "ends_with s e"
    by (auto simp: ends_with_def suffix_def)
qed

lemma ends_with_both:
  assumes "ends_with p a" "ends_with p b"
  shows "ends_with a b \<or> ends_with b a"
  using assms suffix_same_cases [of b p a] by (auto simp: ends_with_suffix)

lemma extensions_apart:
  assumes "a \<in> set DISCOVERY_EXTENSIONS" "b \<in> set DISCOVERY_EXTENSIONS" "a \<noteq> b"
  shows "\<not> ends_with a b"
proof -
  have "\<forall>a \<in> set DISCOVERY_EXTENSIONS. \<forall>b \<in> set DISCOVERY_EXTENSIONS. a \<noteq> b \<longrightarrow> \<not> ends_with a b"
    by code_simp
  with assms show ?thesis
    by blast
qed

lemma one_extension:
  assumes "a \<in> set DISCOVERY_EXTENSIONS" "b \<in> set DISCOVERY_EXTENSIONS"
    and "ends_with p a" "ends_with p b"
  shows "a = b"
  using ends_with_both [OF assms(3,4)] extensions_apart [OF assms(1,2)]
    extensions_apart [OF assms(2,1)]
  by auto

lemma discovered_extension:
  assumes "(kind, q) \<in> set (discovered (with_tree env tree))"
  shows "\<exists>p \<in> set tree. q = SOURCE_DIR env @ ''/'' @ p \<and>
           (\<exists>ext \<in> set (kind_extensions kind). ends_with p ext)"
  using assms
  by (auto simp: discovered_cases found_defs with_tree_def glob_model_member kind_extensions_def
        imagePatterns_def matches_def starts_with_def SUPPORTED_IMAGE_FORMATS_def
      split: sum.splits)

lemma kind_extensions_discovery: "set (kind_extensions kind) \<subseteq> set DISCOVERY_EXTENSIONS"
  by (auto simp: kind_extensions_def DISCOVERY_EXTENSIONS_def)

lemma kind_extensions_apart:
  assumes "k1 \<in> {''image'', ''css'', ''js'', ''html''}" "k2 \<in> {''image'', ''css'', ''js'', ''html''}"
    and "ext \<in> set (kind_extensions k1)" "ext \<in> set (kind_extensions k2)"
  shows "k1 = k2"
  using assms
  by (elim insertE emptyE; simp add: kind_extensions_def SUPPORTED_IMAGE_FORMATS_def; fastforce)

lemma discovered_kind:
  "(kind, q) \<in> set (discovered env) \<Longrightarrow> kind \<in> {''image'', ''css'', ''js'', ''html''}"
  unfolding discovered_cases by blast

lemma kinds_apart:
  assumes "(k1, q) \<in> set (discovered (with_tree env tree))"
    and "(k2, q) \<in> set (discovered (with_tree env tree))"
  shows "k1 = k2"
proof -
  from discovered_extension [OF assms(1)] obtain p1 e1 where
    1: "q = SOURCE_DIR env @ ''/'' @ p1" "e1 \<in> set (kind_extensions k1)" "ends_with p1 e1"
    by blast
  from discovered_extension [OF assms(2)] obtain p2 e2 where
    2: "q = SOURCE_DIR env @ ''/'' @ p2" "e2 \<in> set (kind_extensions k2)" "ends_with p2 e2"
    by blast
  from 1(1) 2(1) have "p1 = p2"
    by simp
  with 1 2 have "e1 = e2"
    using one_extension kind_extensions_discovery by blast
  with 1(2) 2(2) show ?thesis
    using kind_extensions_apart [OF discovered_kind [OF assms(1)] discovered_kind [OF assms(2)]]
    by blast
qed

lemma files_with_tree_distinct:
  "distinct (imageFiles (with_tree env tree))" "distinct (cssFiles (with_tree env tree))"
  "distinct (jsFiles (with_tree env tree))" "distinct (htmlFiles (with_tree env tree))"
  by (simp_all add: found_defs with_tree_def glob_model_distinct split: sum.splits)

text \<open>
  With the discovery of section 4.1 of the spec, no path is discovered twice in a run,
  neither within a kind nor under two kinds.
\<close>

lemma discovered_distinct: "distinct (map snd (discovered (with_tree env tree)))"
proof -
  have pairs: "distinct (discovered (with_tree env tree))"
    by (auto simp: discovered_def distinct_map files_with_tree_distinct inj_on_def)
  have "inj_on snd (set (discovered (with_tree env tree)))"
    by (rule inj_onI) (metis kinds_apart prod.collapse)
  with pairs show ?thesis
    by (simp add: distinct_map)
qed

end
